theory Spec2Isabelle
  imports Complex_Main "HOL-Library.Word" "HOL-Library.Log_Nat"
begin

section \<open>The menu list of my-packages/menulist/menulist.go\<close>

text \<open>
  The package builds a menu (\<open>NewMenu\<close>), moves a selection cursor over it
  (\<open>IncrementSelected\<close>, \<open>DecrementSelected\<close>), reads the selected item's name
  (\<open>GetSelectedItem\<close>) and draws it (\<open>Draw\<close>).

  Conventions of the embedding:
  \<^item> Go's \<open>int\<close> fields whose arithmetic can overflow (\<open>Width\<close>, \<open>Height\<close>,
    \<open>TxtX\<close>, \<open>TxtY\<close>) are 64-bit words; \<open>Height - 5\<close> wraps as in Go.
  \<^item> The selection cursor and slice lengths are \<open>int\<close>: the cursor is only
    incremented below \<open>len - 1\<close> and only decremented above \<open>0\<close>, so no
    operation on it can overflow.
  \<^item> A pointer that may be \<open>nil\<close> is an \<open>option\<close>; dereferencing \<open>None\<close>,
    indexing out of range and a panic inside ebiten are values of type \<open>panic\<close>,
    and a function that can panic returns \<open>panic + result\<close>.
  \<^item> \<open>float64\<close> is a type parameter \<open>'f\<close>; its zero, its comparison with zero
    and the conversion from \<open>int\<close> are taken from a \<open>platform\<close>, as are the
    calls into the ebiten library (\<open>NewImage\<close>, the \<open>GeoM\<close> matrix). The
    theorems hold for every platform; \<open>binary64_platform\<close> is the one with
    \<open>float64\<close> rounding.
  \<^item> The calls \<open>Draw\<close> makes into the library are returned as a list, in the
    order they are made.
\<close>

subsection \<open>Data\<close>

type_synonym go_int = "64 word"

text \<open>\<open>color.NRGBA{R, G, B, A}\<close>\<close>

datatype NRGBA = NRGBA "8 word" "8 word" "8 word" "8 word"

text \<open>A \<open>*ebiten.Image\<close> is the address of an image owned by the library.\<close>

type_synonym image_ref = nat

record MenuItem =
  Name :: string
  Text :: string
  TxtX :: go_int
  TxtY :: go_int
  image_p :: "image_ref option"
  BgColour :: "NRGBA option"
  TxtColour :: "NRGBA option"
  SelBgColour :: "NRGBA option"
  SelTxtColour :: "NRGBA option"

record 'f MenuListInput =
  Tx :: 'f
  Ty :: 'f
  Width :: go_int
  Height :: go_int
  Offx :: 'f
  Offy :: 'f
  DefaultBgColour :: "NRGBA option"
  DefaultTxtColour :: "NRGBA option"
  DefaultSelBGColour :: "NRGBA option"
  DefaultSelTxtColour :: "NRGBA option"
  MenuItems :: "MenuItem list"

record 'f MenuList =
  Tx :: 'f
  Ty :: 'f
  Width :: go_int
  Height :: go_int
  Offx :: 'f
  Offy :: 'f
  DefaultBgColour :: "NRGBA option"
  DefaultTxtColour :: "NRGBA option"
  DefaultSelBgColour :: "NRGBA option"
  DefaultSelTxtColour :: "NRGBA option"
  SelectedIndex :: "int option"
  MenuItems :: "MenuItem list"

datatype panic = NilPointerDereference | IndexOutOfRange | EbitenPanic

text \<open>
  What the code takes from the language and from ebiten: the \<open>float64\<close> zero value,
  the test \<open>x == 0\<close> on \<open>float64\<close>, the conversion \<open>float64(n)\<close>, the constructor
  \<open>ebiten.NewImage(w, h, FilterNearest)\<close>, the zero value of \<open>ebiten.GeoM\<close> and
  \<open>GeoM.Translate\<close>.

  A call of \<open>NewImage\<close> either panics (\<open>Inl\<close>) or returns a pointer and an error
  (\<open>Inr\<close>); the caller drops the error, so only the pointer is kept, and it is \<open>nil\<close>
  when the image could not be made. The third argument here is the number of images
  made before, so that two calls may have two outcomes.
\<close>

record ('f, 'g) platform =
  f64_zero :: 'f
  f64_eq_zero :: "'f \<Rightarrow> bool"
  f64_of_int :: "go_int \<Rightarrow> 'f"
  ebiten_NewImage :: "go_int \<Rightarrow> go_int \<Rightarrow> nat \<Rightarrow> panic + image_ref option"
  GeoM_zero :: 'g
  GeoM_Translate :: "'g \<Rightarrow> 'f \<Rightarrow> 'f \<Rightarrow> 'g"

subsection \<open>NewMenu\<close>

text \<open>\<open>MenuList{}\<close>: every field at its zero value.\<close>

definition zero_MenuList :: "('f, 'g) platform \<Rightarrow> 'f MenuList" where
  "zero_MenuList P =
     \<lparr>Tx = f64_zero P, Ty = f64_zero P, Width = 0, Height = 0,
      Offx = f64_zero P, Offy = f64_zero P,
      DefaultBgColour = None, DefaultTxtColour = None,
      DefaultSelBgColour = None, DefaultSelTxtColour = None,
      SelectedIndex = None, MenuItems = []\<rparr>"

text \<open>
  One round of the first loop of \<open>NewMenu\<close>. \<open>ml.MenuItems\<close> and
  \<open>input.MenuItems\<close> are the same array \<open>arr\<close>; \<open>item\<close> is the copy of its element
  \<open>i\<close> that \<open>range\<close> makes before the body runs, and the body writes the fields of
  \<open>ml.MenuItems[i]\<close> one by one.
\<close>

definition resolve_step :: "'f MenuList \<Rightarrow> nat \<Rightarrow> MenuItem list \<Rightarrow> MenuItem list" where
  "resolve_step ml i arr0 =
     (let item = arr0 ! i;
          arr1 = (if BgColour item \<noteq> None
                  then arr0[i := (arr0 ! i)\<lparr>BgColour := BgColour item\<rparr>]
                  else arr0[i := (arr0 ! i)\<lparr>BgColour := DefaultBgColour ml\<rparr>]);
          arr2 = (if TxtColour item \<noteq> None
                  then arr1[i := (arr1 ! i)\<lparr>TxtColour := TxtColour item\<rparr>]
                  else arr1[i := (arr1 ! i)\<lparr>TxtColour := DefaultTxtColour ml\<rparr>]);
          arr3 = (if SelBgColour item \<noteq> None
                  then arr2[i := (arr2 ! i)\<lparr>SelBgColour := SelBgColour item\<rparr>]
                  else arr2[i := (arr2 ! i)\<lparr>SelBgColour := DefaultSelBgColour ml\<rparr>]);
          arr4 = (if SelTxtColour item \<noteq> None
                  then arr3[i := (arr3 ! i)\<lparr>SelTxtColour := SelTxtColour item\<rparr>]
                  else arr3[i := (arr3 ! i)\<lparr>SelTxtColour := DefaultSelTxtColour ml\<rparr>])
      in if TxtY item = 0
         then arr4[i := (arr4 ! i)\<lparr>TxtY := Height ml - 5\<rparr>]
         else arr4)"

text \<open>
  The second loop, over the indices still to visit: each round calls
  \<open>ebiten.NewImage\<close> and stores the pointer in \<open>ml.MenuItems[i].image\<close>. The state
  is the array and the number of images made. A panic of \<open>NewImage\<close> ends the loop
  and \<open>NewMenu\<close>.
\<close>

fun image_loop ::
  "('f, 'g) platform \<Rightarrow> 'f MenuList \<Rightarrow> nat list \<Rightarrow> MenuItem list \<times> nat
     \<Rightarrow> panic + MenuItem list \<times> nat" where
  "image_loop P ml [] st = Inr st"
| "image_loop P ml (i # rest) st =
     (case ebiten_NewImage P (Width ml) (Height ml) (snd st) of
        Inl p \<Rightarrow> Inl p
      | Inr newImage \<Rightarrow>
          image_loop P ml rest
            ((fst st)[i := (fst st ! i)\<lparr>image_p := newImage\<rparr>], Suc (snd st)))"

text \<open>
  What a call of \<open>NewMenu\<close> that returns leaves behind: the two results, the array
  behind the caller's \<open>input.MenuItems\<close> (the slice is passed by reference, so the
  writes of the loops are writes to the caller's array) and the number of images made
  so far.
\<close>

record 'f NewMenu_outcome =
  ret_menu :: "'f MenuList"
  ret_err :: "string option"
  input_items_after :: "MenuItem list"
  images_made :: nat

definition NewMenu ::
  "('f, 'g) platform \<Rightarrow> 'f MenuListInput \<Rightarrow> nat \<Rightarrow> panic + 'f NewMenu_outcome" where
  "NewMenu P input0 made =
     (if MenuListInput.Width input0 = 0 then
        Inr \<lparr>ret_menu = zero_MenuList P,
             ret_err = Some ''Mandatory input field width is missing'',
             input_items_after = MenuListInput.MenuItems input0, images_made = made\<rparr>
      else if MenuListInput.Height input0 = 0 then
        Inr \<lparr>ret_menu = zero_MenuList P,
             ret_err = Some ''Mandatory input field height is missing'',
             input_items_after = MenuListInput.MenuItems input0, images_made = made\<rparr>
      else if int (length (MenuListInput.MenuItems input0)) < 1 then
        Inr \<lparr>ret_menu = zero_MenuList P,
             ret_err = Some ''Mandatory input field MenuItems is missing'',
             input_items_after = MenuListInput.MenuItems input0, images_made = made\<rparr>
      else
        (let input1 = (if f64_eq_zero P (MenuListInput.Offy input0)
                       then input0\<lparr>MenuListInput.Offy :=
                                     f64_of_int P (MenuListInput.Height input0)\<rparr>
                       else input0);
             input2 = (if MenuListInput.DefaultBgColour input1 = None
                       then input1\<lparr>MenuListInput.DefaultBgColour :=
                                     Some (NRGBA 0x00 0xff 0xff 0xff)\<rparr>
                       else input1);
             input3 = (if MenuListInput.DefaultTxtColour input2 = None
                       then input2\<lparr>MenuListInput.DefaultTxtColour :=
                                     Some (NRGBA 0x00 0x00 0x00 0xff)\<rparr>
                       else input2);
             input4 = (if DefaultSelBGColour input3 = None
                       then input3\<lparr>DefaultSelBGColour :=
                                     Some (NRGBA 0xff 0x00 0xff 0xff)\<rparr>
                       else input3);
             input = (if MenuListInput.DefaultSelTxtColour input4 = None
                      then input4\<lparr>MenuListInput.DefaultSelTxtColour :=
                                    Some (NRGBA 0xff 0xff 0xff 0xff)\<rparr>
                      else input4);
             defaultSelectedIndex = 0;
             ml = \<lparr>Tx = MenuListInput.Tx input, Ty = MenuListInput.Ty input,
                   Width = MenuListInput.Width input, Height = MenuListInput.Height input,
                   Offx = MenuListInput.Offx input, Offy = MenuListInput.Offy input,
                   DefaultBgColour = MenuListInput.DefaultBgColour input,
                   DefaultTxtColour = MenuListInput.DefaultTxtColour input,
                   DefaultSelBgColour = DefaultSelBGColour input,
                   DefaultSelTxtColour = MenuListInput.DefaultSelTxtColour input,
                   SelectedIndex = Some defaultSelectedIndex,
                   MenuItems = MenuListInput.MenuItems input\<rparr>;
             arr = fold (resolve_step ml) [0..<length (MenuListInput.MenuItems input)]
                     (MenuItems ml)
         in case image_loop P ml [0..<length arr] (arr, made) of
              Inl p \<Rightarrow> Inl p
            | Inr st \<Rightarrow>
                Inr \<lparr>ret_menu = ml\<lparr>MenuItems := fst st\<rparr>, ret_err = None,
                     input_items_after = fst st, images_made = snd st\<rparr>))"

subsection \<open>Selection\<close>

definition GetSelectedItem :: "'f MenuList \<Rightarrow> panic + string" where
  "GetSelectedItem m =
     (case SelectedIndex m of
        None \<Rightarrow> Inl NilPointerDereference
      | Some s \<Rightarrow>
          if 0 \<le> s \<and> s < int (length (MenuItems m))
          then Inr (Name (MenuItems m ! nat s))
          else Inl IndexOutOfRange)"

definition IncrementSelected :: "'f MenuList \<Rightarrow> panic + 'f MenuList" where
  "IncrementSelected m =
     (let maxIndex = int (length (MenuItems m)) - 1
      in case SelectedIndex m of
           None \<Rightarrow> Inl NilPointerDereference
         | Some s \<Rightarrow>
             if s < maxIndex then Inr (m\<lparr>SelectedIndex := Some (s + 1)\<rparr>) else Inr m)"

definition DecrementSelected :: "'f MenuList \<Rightarrow> panic + 'f MenuList" where
  "DecrementSelected m =
     (let minIndex = 0
      in case SelectedIndex m of
           None \<Rightarrow> Inl NilPointerDereference
         | Some s \<Rightarrow>
             if s > minIndex then Inr (m\<lparr>SelectedIndex := Some (s - 1)\<rparr>) else Inr m)"

subsection \<open>Draw\<close>

text \<open>
  The calls into ebiten: \<open>img.Fill(clr)\<close>, \<open>text.Draw(img, str, face, x, y, clr)\<close>
  (the face is the package's one font) and \<open>screen.DrawImage(img, opts)\<close>, with the
  value of \<open>opts.GeoM\<close> at the time of the call.
\<close>

datatype 'g ebiten_call =
    Fill "image_ref option" "NRGBA option"
  | TextDraw "image_ref option" string go_int go_int "NRGBA option"
  | DrawImage "image_ref option" 'g

text \<open>
  The loop of \<open>Draw\<close> from position \<open>index\<close> on, over the items not yet drawn, with
  \<open>g\<close> the current \<open>opts.GeoM\<close>. Every round reads \<open>*m.SelectedIndex\<close>, and then
  calls \<open>Fill\<close> on the item's image, which dereferences it: an item whose image is
  \<open>nil\<close> makes \<open>Draw\<close> panic.
\<close>

fun Draw_loop ::
  "('f, 'g) platform \<Rightarrow> 'f MenuList \<Rightarrow> int \<Rightarrow> 'g \<Rightarrow> MenuItem list
     \<Rightarrow> panic + 'g ebiten_call list" where
  "Draw_loop P m index g [] = Inr []"
| "Draw_loop P m index g (item # rest) =
     (case SelectedIndex m of
        None \<Rightarrow> Inl NilPointerDereference
      | Some sel \<Rightarrow>
          (case image_p item of
             None \<Rightarrow> Inl NilPointerDereference
           | Some img \<Rightarrow>
               (let fill = (if index = sel then Fill (image_p item) (SelBgColour item)
                            else Fill (image_p item) (BgColour item));
                    txt = (if index = sel
                           then TextDraw (image_p item) (Text item) (TxtX item) (TxtY item)
                                  (SelTxtColour item)
                           else TextDraw (image_p item) (Text item) (TxtX item) (TxtY item)
                                  (TxtColour item));
                    blit = DrawImage (image_p item) g;
                    g' = GeoM_Translate P g (Offx m) (Offy m)
                in case Draw_loop P m (index + 1) g' rest of
                     Inl e \<Rightarrow> Inl e
                   | Inr calls \<Rightarrow> Inr (fill # txt # blit # calls))))"

definition Draw :: "('f, 'g) platform \<Rightarrow> 'f MenuList \<Rightarrow> panic + 'g ebiten_call list" where
  "Draw P m =
     Draw_loop P m 0 (GeoM_Translate P (GeoM_zero P) (Tx m) (Ty m)) (MenuItems m)"

subsection \<open>The host's calls\<close>

text \<open>
  The host (\<open>update\<close> in main.go) holds one \<open>MenuList\<close> and calls its four methods.
  \<open>exec_call\<close> is one such call on the receiver \<open>m\<close>: it gives the receiver after the
  call, or the panic. \<open>GetSelectedItem\<close> and \<open>Draw\<close> assign to no field.
\<close>

datatype menu_call = CallIncrementSelected | CallDecrementSelected | CallGetSelectedItem | CallDraw

fun exec_call :: "('f, 'g) platform \<Rightarrow> menu_call \<Rightarrow> 'f MenuList \<Rightarrow> panic + 'f MenuList" where
  "exec_call P CallIncrementSelected m = IncrementSelected m"
| "exec_call P CallDecrementSelected m = DecrementSelected m"
| "exec_call P CallGetSelectedItem m =
     (case GetSelectedItem m of Inl e \<Rightarrow> Inl e | Inr _ \<Rightarrow> Inr m)"
| "exec_call P CallDraw m = (case Draw P m of Inl e \<Rightarrow> Inl e | Inr _ \<Rightarrow> Inr m)"

fun run_calls :: "('f, 'g) platform \<Rightarrow> menu_call list \<Rightarrow> 'f MenuList \<Rightarrow> panic + 'f MenuList" where
  "run_calls P [] m = Inr m"
| "run_calls P (c # cs) m =
     (case exec_call P c m of Inl e \<Rightarrow> Inl e | Inr m' \<Rightarrow> run_calls P cs m')"


subsection \<open>The loops of NewMenu, one element at a time\<close>

text \<open>
  What one round of the first loop does to the element it visits, and the \<open>ml\<close> that
  \<open>NewMenu\<close> builds before its loops; both are proved equal to the code above
  (\<open>resolve_step_eq\<close>, \<open>NewMenu_valid\<close>). \<open>all_images\<close> says that every item of a
  menu has an image.
\<close>

definition all_images :: "'f MenuList \<Rightarrow> bool" where
  "all_images m = list_all (\<lambda>item. image_p item \<noteq> None) (MenuItems m)"


definition resolve_item :: "'f MenuList \<Rightarrow> MenuItem \<Rightarrow> MenuItem" where
  "resolve_item ml item =
     (let r = item\<lparr>BgColour := (if BgColour item \<noteq> None then BgColour item else DefaultBgColour ml),
                   TxtColour := (if TxtColour item \<noteq> None then TxtColour item else DefaultTxtColour ml),
                   SelBgColour := (if SelBgColour item \<noteq> None then SelBgColour item
                                   else DefaultSelBgColour ml),
                   SelTxtColour := (if SelTxtColour item \<noteq> None then SelTxtColour item
                                    else DefaultSelTxtColour ml)\<rparr>
      in if TxtY item = 0 then r\<lparr>TxtY := Height ml - 5\<rparr> else r)"

definition base_menu :: "('f, 'g) platform \<Rightarrow> 'f MenuListInput \<Rightarrow> 'f MenuList" where
  "base_menu P input =
     \<lparr>Tx = MenuListInput.Tx input, Ty = MenuListInput.Ty input,
      Width = MenuListInput.Width input, Height = MenuListInput.Height input,
      Offx = MenuListInput.Offx input,
      Offy = (if f64_eq_zero P (MenuListInput.Offy input)
              then f64_of_int P (MenuListInput.Height input) else MenuListInput.Offy input),
      DefaultBgColour = (if MenuListInput.DefaultBgColour input = None
                         then Some (NRGBA 0x00 0xff 0xff 0xff)
                         else MenuListInput.DefaultBgColour input),
      DefaultTxtColour = (if MenuListInput.DefaultTxtColour input = None
                          then Some (NRGBA 0x00 0x00 0x00 0xff)
                          else MenuListInput.DefaultTxtColour input),
      DefaultSelBgColour = (if DefaultSelBGColour input = None
                            then Some (NRGBA 0xff 0x00 0xff 0xff)
                            else DefaultSelBGColour input),
      DefaultSelTxtColour = (if MenuListInput.DefaultSelTxtColour input = None
                             then Some (NRGBA 0xff 0xff 0xff 0xff)
                             else MenuListInput.DefaultSelTxtColour input),
      SelectedIndex = Some 0,
      MenuItems = MenuListInput.MenuItems input\<rparr>"


subsection \<open>Platforms and the menu of main.go\<close>

text \<open>
  A platform with exact arithmetic: \<open>float64\<close> read as \<open>real\<close>, a \<open>GeoM\<close> that is its
  translation vector, and a \<open>NewImage\<close> that returns the image numbered by the count
  of images made before.
\<close>

definition exact_platform :: "(real, real \<times> real) platform" where
  "exact_platform =
     \<lparr>f64_zero = 0, f64_eq_zero = (\<lambda>x. x = 0), f64_of_int = (\<lambda>n. real_of_int (sint n)),
      ebiten_NewImage = (\<lambda>w h made. Inr (Some made)),
      GeoM_zero = (0, 0),
      GeoM_Translate = (\<lambda>g dx dy. (fst g + dx, snd g + dy))\<rparr>"

text \<open>
  The platform the program runs on. A finite \<open>float64\<close> is the real number it
  stands for, and the result of an operation is the exact result rounded to the
  nearest \<open>float64\<close>, ties to even: 53 significant bits, the last of them worth
  \<open>2 ^ (e - 52)\<close> for a magnitude from \<open>2 ^ e\<close> up to \<open>2 ^ (e + 1)\<close>, and
  \<open>2 ^ -1074\<close> below \<open>2 ^ -1022\<close>. Infinities and NaN are left out.
  \<open>GeoM.Translate(tx, ty)\<close> adds \<open>tx\<close> and \<open>ty\<close> to the translation of the matrix
  (\<open>g.tx += tx; g.ty += ty\<close>). \<open>NewImage\<close> panics on a width or height below 1.
\<close>

definition pow2 :: "int \<Rightarrow> real" where
  "pow2 e = (if 0 \<le> e then 2 ^ nat e else 1 / 2 ^ nat (- e))"

definition f64_exponent :: "real \<Rightarrow> int" where
  "f64_exponent x =
     (if 1 \<le> \<bar>x\<bar> then bitlen \<lfloor>\<bar>x\<bar>\<rfloor> - 1 else - bitlen (\<lceil>1 / \<bar>x\<bar>\<rceil> - 1))"

definition f64_round :: "real \<Rightarrow> real" where
  "f64_round x =
     (if x = 0 then 0
      else
        (let ulp = pow2 (max (f64_exponent x) (- 1022) - 52);
             n = \<bar>x\<bar> / ulp;
             f = \<lfloor>n\<rfloor>;
             r = n - of_int f;
             k = (if r < 1 / 2 then f
                  else if 1 / 2 < r then f + 1
                  else if even f then f else f + 1)
         in sgn x * of_int k * ulp))"

definition binary64_platform :: "(real, real \<times> real) platform" where
  "binary64_platform =
     \<lparr>f64_zero = 0, f64_eq_zero = (\<lambda>x. x = 0),
      f64_of_int = (\<lambda>n. f64_round (real_of_int (sint n))),
      ebiten_NewImage =
        (\<lambda>w h made. if sint w < 1 \<or> sint h < 1 then Inl EbitenPanic else Inr (Some made)),
      GeoM_zero = (0, 0),
      GeoM_Translate = (\<lambda>g dx dy. (f64_round (fst g + dx), f64_round (snd g + dy)))\<rparr>"

text \<open>The palette entries and the input that \<open>main\<close> passes to \<open>NewMenu\<close>.\<close>

definition green1 :: NRGBA where "green1 = NRGBA 0x00 0x38 0x40 0xff"
definition green2 :: NRGBA where "green2 = NRGBA 0x00 0x5a 0x5b 0xff"
definition green3 :: NRGBA where "green3 = NRGBA 0x00 0x73 0x69 0xff"
definition purple3 :: NRGBA where "purple3 = NRGBA 0x5f 0x49 0x73 0xff"

definition newMenuItems :: "MenuItem list" where
  "newMenuItems =
     [\<lparr>Name = ''playButton'', Text = ''PLAY'', TxtX = 36, TxtY = 25, image_p = None,
       BgColour = Some green1, TxtColour = None, SelBgColour = None, SelTxtColour = None\<rparr>,
      \<lparr>Name = ''optionButton'', Text = ''OPTIONS'', TxtX = 12, TxtY = 25, image_p = None,
       BgColour = Some green2, TxtColour = None, SelBgColour = None, SelTxtColour = None\<rparr>,
      \<lparr>Name = ''quitButton'', Text = ''QUIT'', TxtX = 36, TxtY = 25, image_p = None,
       BgColour = Some green3, TxtColour = None, SelBgColour = None, SelTxtColour = None\<rparr>]"

definition newMenuInput :: "real MenuListInput" where
  "newMenuInput =
     \<lparr>MenuListInput.Tx = 128, MenuListInput.Ty = 128,
      MenuListInput.Width = 128, MenuListInput.Height = 36,
      MenuListInput.Offx = 0, MenuListInput.Offy = 0,
      MenuListInput.DefaultBgColour = None, MenuListInput.DefaultTxtColour = None,
      DefaultSelBGColour = Some purple3, MenuListInput.DefaultSelTxtColour = None,
      MenuListInput.MenuItems = newMenuItems\<rparr>"

text \<open>
  The menu that \<open>NewMenu\<close> returns to \<open>main\<close> on the exact platform, which \<open>main\<close>
  stores in \<open>mainMenu\<close> (\<open>main_menu_built\<close> proves that it is the one).
\<close>

definition mainMenu :: "real MenuList" where
  "mainMenu =
     \<lparr>Tx = 128, Ty = 128, Width = 128, Height = 36, Offx = 0, Offy = 36,
      DefaultBgColour = Some (NRGBA 0x00 0xff 0xff 0xff),
      DefaultTxtColour = Some (NRGBA 0x00 0x00 0x00 0xff),
      DefaultSelBgColour = Some purple3,
      DefaultSelTxtColour = Some (NRGBA 0xff 0xff 0xff 0xff),
      SelectedIndex = Some 0,
      MenuItems =
        [\<lparr>Name = ''playButton'', Text = ''PLAY'', TxtX = 36, TxtY = 25, image_p = Some 0,
          BgColour = Some green1, TxtColour = Some (NRGBA 0x00 0x00 0x00 0xff),
          SelBgColour = Some purple3, SelTxtColour = Some (NRGBA 0xff 0xff 0xff 0xff)\<rparr>,
         \<lparr>Name = ''optionButton'', Text = ''OPTIONS'', TxtX = 12, TxtY = 25, image_p = Some 1,
          BgColour = Some green2, TxtColour = Some (NRGBA 0x00 0x00 0x00 0xff),
          SelBgColour = Some purple3, SelTxtColour = Some (NRGBA 0xff 0xff 0xff 0xff)\<rparr>,
         \<lparr>Name = ''quitButton'', Text = ''QUIT'', TxtX = 36, TxtY = 25, image_p = Some 2,
          BgColour = Some green3, TxtColour = Some (NRGBA 0x00 0x00 0x00 0xff),
          SelBgColour = Some purple3, SelTxtColour = Some (NRGBA 0xff 0xff 0xff 0xff)\<rparr>]\<rparr>"

text \<open>
  The same platform with an ebiten that cannot make an image: \<open>NewImage\<close> returns
  \<open>nil\<close> and an error.
\<close>

definition no_image_platform :: "(real, real \<times> real) platform" where
  "no_image_platform = binary64_platform\<lparr>ebiten_NewImage := (\<lambda>w h made. Inr None)\<rparr>"


section \<open>Properties\<close>

subsection \<open>The loops and the shape of a built menu\<close>

lemma resolve_step_eq:
  "i < length arr \<Longrightarrow> resolve_step ml i arr = arr[i := resolve_item ml (arr ! i)]"
  by (simp add: resolve_step_def resolve_item_def Let_def)

lemma fold_resolve_step:
  "n \<le> length arr \<Longrightarrow>
   fold (resolve_step ml) [0..<n] arr = map (resolve_item ml) (take n arr) @ drop n arr"
proof (induction n)
  case 0
  show ?case by simp
next
  case (Suc n)
  then have n: "n < length arr" by simp
  have "fold (resolve_step ml) [0..<Suc n] arr =
        resolve_step ml n (map (resolve_item ml) (take n arr) @ drop n arr)"
    using Suc by simp
  also have "\<dots> = (map (resolve_item ml) (take n arr) @ drop n arr)
                     [n := resolve_item ml ((map (resolve_item ml) (take n arr) @ drop n arr) ! n)]"
    using n by (simp add: resolve_step_eq)
  also have "\<dots> = map (resolve_item ml) (take (Suc n) arr) @ drop (Suc n) arr"
    using n by (simp add: nth_append list_update_append take_Suc_conv_app_nth
        Cons_nth_drop_Suc [symmetric])
  finally show ?case .
qed

lemma image_loop_append:
  "image_loop P ml (xs @ ys) st =
     (case image_loop P ml xs st of Inl p \<Rightarrow> Inl p | Inr st' \<Rightarrow> image_loop P ml ys st')"
  by (induction xs arbitrary: st) (simp_all split: sum.splits)

lemma image_loop_upt:
  "image_loop P ml [0..<n] (arr, made) = Inr st \<Longrightarrow>
   snd st = made + n \<and> length (fst st) = length arr
   \<and> (\<forall>j<n. \<exists>r. ebiten_NewImage P (Width ml) (Height ml) (made + j) = Inr r)
   \<and> (\<forall>j<length arr. fst st ! j =
         (if j < n
          then (arr ! j)\<lparr>image_p := projr (ebiten_NewImage P (Width ml) (Height ml) (made + j))\<rparr>
          else arr ! j))"
proof (induction n arbitrary: st)
  case 0
  then show ?case by auto
next
  case (Suc n)
  from Suc.prems obtain st' where st': "image_loop P ml [0..<n] (arr, made) = Inr st'"
    and last: "image_loop P ml [n] st' = Inr st"
    by (auto simp add: image_loop_append split: sum.splits)
  note ih = Suc.IH [OF st']
  from last obtain r where r: "ebiten_NewImage P (Width ml) (Height ml) (snd st') = Inr r"
    and st: "st = ((fst st')[n := (fst st' ! n)\<lparr>image_p := r\<rparr>], Suc (snd st'))"
    by (auto split: sum.splits)
  have cnt: "snd st' = made + n" and len: "length (fst st') = length arr"
    using ih by simp_all
  have r': "ebiten_NewImage P (Width ml) (Height ml) (made + n) = Inr r"
    using r by (simp add: cnt)
  have a: "snd st = made + Suc n" by (simp add: st cnt)
  have b: "length (fst st) = length arr" by (simp add: st len)
  have c: "\<forall>j<Suc n. \<exists>r. ebiten_NewImage P (Width ml) (Height ml) (made + j) = Inr r"
    using ih r' by (auto simp add: less_Suc_eq)
  have d: "\<forall>j<length arr. fst st ! j =
         (if j < Suc n
          then (arr ! j)\<lparr>image_p := projr (ebiten_NewImage P (Width ml) (Height ml) (made + j))\<rparr>
          else arr ! j)"
  proof (intro allI impI)
    fix j
    assume j: "j < length arr"
    have old: "fst st' ! j =
         (if j < n
          then (arr ! j)\<lparr>image_p := projr (ebiten_NewImage P (Width ml) (Height ml) (made + j))\<rparr>
          else arr ! j)"
      using ih j by simp
    show "fst st ! j =
         (if j < Suc n
          then (arr ! j)\<lparr>image_p := projr (ebiten_NewImage P (Width ml) (Height ml) (made + j))\<rparr>
          else arr ! j)"
    proof (cases "j = n")
      case True
      then show ?thesis using j len old r' by (simp add: st)
    next
      case False
      then show ?thesis using old by (simp add: st less_Suc_eq)
    qed
  qed
  from a b c d show ?case by (intro conjI)
qed

lemma image_loop_upt_returns:
  "(\<forall>j<n. \<exists>r. ebiten_NewImage P (Width ml) (Height ml) (made + j) = Inr r) \<Longrightarrow>
   \<exists>st. image_loop P ml [0..<n] (arr, made) = Inr st"
proof (induction n)
  case 0
  show ?case by simp
next
  case (Suc n)
  then obtain st' where st': "image_loop P ml [0..<n] (arr, made) = Inr st'" by auto
  have cnt: "snd st' = made + n" using image_loop_upt [OF st'] by simp
  obtain r where "ebiten_NewImage P (Width ml) (Height ml) (made + n) = Inr r"
    using Suc.prems by auto
  then show ?case by (simp add: image_loop_append st' cnt)
qed

lemma NewMenu_invalid:
  assumes "MenuListInput.Width input = 0 \<or> MenuListInput.Height input = 0
    \<or> MenuListInput.MenuItems input = []"
  shows "NewMenu P input made =
     Inr \<lparr>ret_menu = zero_MenuList P,
          ret_err = Some (if MenuListInput.Width input = 0
                          then ''Mandatory input field width is missing''
                          else if MenuListInput.Height input = 0
                          then ''Mandatory input field height is missing''
                          else ''Mandatory input field MenuItems is missing''),
          input_items_after = MenuListInput.MenuItems input, images_made = made\<rparr>"
proof -
  consider (w) "MenuListInput.Width input = 0"
    | (h) "MenuListInput.Width input \<noteq> 0" "MenuListInput.Height input = 0"
    | (i) "MenuListInput.Width input \<noteq> 0" "MenuListInput.Height input \<noteq> 0"
          "MenuListInput.MenuItems input = []"
    using assms by blast
  then show ?thesis
  proof cases
    case w
    then show ?thesis by (simp add: NewMenu_def)
  next
    case h
    then show ?thesis by (simp add: NewMenu_def)
  next
    case i
    then show ?thesis by (simp add: NewMenu_def)
  qed
qed

lemma NewMenu_valid:
  assumes "MenuListInput.Width input \<noteq> 0" and "MenuListInput.Height input \<noteq> 0"
    and "MenuListInput.MenuItems input \<noteq> []"
  shows "NewMenu P input made =
     (case image_loop P (base_menu P input) [0..<length (MenuListInput.MenuItems input)]
             (map (resolve_item (base_menu P input)) (MenuListInput.MenuItems input), made) of
        Inl p \<Rightarrow> Inl p
      | Inr st \<Rightarrow>
          Inr \<lparr>ret_menu = (base_menu P input)\<lparr>MenuItems := fst st\<rparr>, ret_err = None,
               input_items_after = fst st, images_made = snd st\<rparr>)"
proof -
  have ne: "\<not> int (length (MenuListInput.MenuItems input)) < 1"
    using assms(3) by (cases "MenuListInput.MenuItems input") simp_all
  show ?thesis
    unfolding NewMenu_def
    apply (simp only: assms(1,2) ne if_False)
    apply (cases "f64_eq_zero P (MenuListInput.Offy input)";
           cases "MenuListInput.DefaultBgColour input";
           cases "MenuListInput.DefaultTxtColour input";
           cases "DefaultSelBGColour input";
           cases "MenuListInput.DefaultSelTxtColour input")
    apply (simp_all add: Let_def base_menu_def fold_resolve_step cong: sum.case_cong)
    done
qed

lemma NewMenu_built:
  assumes "NewMenu P input made = Inr out" and "ret_err out = None"
  shows "MenuListInput.Width input \<noteq> 0" and "MenuListInput.Height input \<noteq> 0"
    and "MenuListInput.MenuItems input \<noteq> []"
    and "SelectedIndex (ret_menu out) = Some 0"
    and "length (MenuItems (ret_menu out)) = length (MenuListInput.MenuItems input)"
    and "ret_menu out = (base_menu P input)\<lparr>MenuItems := MenuItems (ret_menu out)\<rparr>"
    and "input_items_after out = MenuItems (ret_menu out)"
    and "images_made out = made + length (MenuListInput.MenuItems input)"
    and "\<forall>i<length (MenuListInput.MenuItems input).
           \<exists>r. ebiten_NewImage P (MenuListInput.Width input) (MenuListInput.Height input)
                 (made + i) = Inr r"
    and "\<forall>i<length (MenuListInput.MenuItems input).
           MenuItems (ret_menu out) ! i =
             (resolve_item (base_menu P input) (MenuListInput.MenuItems input ! i))
               \<lparr>image_p := projr (ebiten_NewImage P (MenuListInput.Width input)
                                    (MenuListInput.Height input) (made + i))\<rparr>"
proof -
  have v: "\<not> (MenuListInput.Width input = 0 \<or> MenuListInput.Height input = 0
    \<or> MenuListInput.MenuItems input = [])"
  proof
    assume "MenuListInput.Width input = 0 \<or> MenuListInput.Height input = 0
      \<or> MenuListInput.MenuItems input = []"
    from NewMenu_invalid [OF this, of P made] assms show False by auto
  qed
  then show w: "MenuListInput.Width input \<noteq> 0" and h: "MenuListInput.Height input \<noteq> 0"
    and i: "MenuListInput.MenuItems input \<noteq> []"
    by simp_all
  let ?n = "length (MenuListInput.MenuItems input)"
  let ?arr = "map (resolve_item (base_menu P input)) (MenuListInput.MenuItems input)"
  obtain st where st: "image_loop P (base_menu P input) [0..<?n] (?arr, made) = Inr st"
    and out: "out = \<lparr>ret_menu = (base_menu P input)\<lparr>MenuItems := fst st\<rparr>, ret_err = None,
               input_items_after = fst st, images_made = snd st\<rparr>"
    using assms(1) unfolding NewMenu_valid [OF w h i] by (auto split: sum.splits)
  note loop = image_loop_upt [OF st]
  have wh: "Width (base_menu P input) = MenuListInput.Width input"
    "Height (base_menu P input) = MenuListInput.Height input"
    by (simp_all add: base_menu_def)
  show "SelectedIndex (ret_menu out) = Some 0" by (simp add: out base_menu_def)
  show "length (MenuItems (ret_menu out)) = ?n" using loop by (simp add: out)
  show "ret_menu out = (base_menu P input)\<lparr>MenuItems := MenuItems (ret_menu out)\<rparr>"
    by (simp add: out)
  show "input_items_after out = MenuItems (ret_menu out)" by (simp add: out)
  show "images_made out = made + ?n" using loop by (simp add: out)
  show "\<forall>i<?n. \<exists>r. ebiten_NewImage P (MenuListInput.Width input) (MenuListInput.Height input)
                 (made + i) = Inr r"
    using loop by (simp add: wh)
  show "\<forall>i<?n. MenuItems (ret_menu out) ! i =
             (resolve_item (base_menu P input) (MenuListInput.MenuItems input ! i))
               \<lparr>image_p := projr (ebiten_NewImage P (MenuListInput.Width input)
                                    (MenuListInput.Height input) (made + i))\<rparr>"
    using loop by (simp add: out wh)
qed

lemma NewMenu_returns:
  assumes "MenuListInput.Width input \<noteq> 0" and "MenuListInput.Height input \<noteq> 0"
    and "MenuListInput.MenuItems input \<noteq> []"
  shows "(\<exists>out. NewMenu P input made = Inr out \<and> ret_err out = None) \<longleftrightarrow>
     (\<forall>i<length (MenuListInput.MenuItems input).
        \<exists>r. ebiten_NewImage P (MenuListInput.Width input) (MenuListInput.Height input)
              (made + i) = Inr r)"
proof
  assume "\<exists>out. NewMenu P input made = Inr out \<and> ret_err out = None"
  then obtain out where "NewMenu P input made = Inr out" "ret_err out = None" by blast
  from NewMenu_built(9) [OF this]
  show "\<forall>i<length (MenuListInput.MenuItems input).
        \<exists>r. ebiten_NewImage P (MenuListInput.Width input) (MenuListInput.Height input)
              (made + i) = Inr r" .
next
  assume a: "\<forall>i<length (MenuListInput.MenuItems input).
        \<exists>r. ebiten_NewImage P (MenuListInput.Width input) (MenuListInput.Height input)
              (made + i) = Inr r"
  have wh: "Width (base_menu P input) = MenuListInput.Width input"
    "Height (base_menu P input) = MenuListInput.Height input"
    by (simp_all add: base_menu_def)
  obtain st where "image_loop P (base_menu P input) [0..<length (MenuListInput.MenuItems input)]
      (map (resolve_item (base_menu P input)) (MenuListInput.MenuItems input), made) = Inr st"
    using image_loop_upt_returns [of "length (MenuListInput.MenuItems input)" P
        "base_menu P input" made] a
    unfolding wh by blast
  then show "\<exists>out. NewMenu P input made = Inr out \<and> ret_err out = None"
    by (simp add: NewMenu_valid [OF assms])
qed

subsection \<open>Draw and sequences of calls\<close>

lemma Draw_loop_eq:
  "SelectedIndex m = Some sel \<Longrightarrow> list_all (\<lambda>item. image_p item \<noteq> None) items \<Longrightarrow>
   Draw_loop P m index g items =
     Inr (concat (map (\<lambda>k.
        [Fill (image_p (items ! k))
           (if index + int k = sel then SelBgColour (items ! k) else BgColour (items ! k)),
         TextDraw (image_p (items ! k)) (Text (items ! k)) (TxtX (items ! k)) (TxtY (items ! k))
           (if index + int k = sel then SelTxtColour (items ! k) else TxtColour (items ! k)),
         DrawImage (image_p (items ! k))
           (((\<lambda>g. GeoM_Translate P g (Offx m) (Offy m)) ^^ k) g)])
        [0..<length items]))"
proof (induction items arbitrary: index g)
  case Nil
  show ?case by simp
next
  case (Cons item rest)
  have shift: "index + 1 + int k = index + int (Suc k)" for k by simp
  have rest: "list_all (\<lambda>item. image_p item \<noteq> None) rest" using Cons.prems(2) by simp
  obtain img where img: "image_p item = Some img" using Cons.prems(2) by auto
  show ?case
    using Cons.prems(1) img
    by (simp add: Cons.IH [OF Cons.prems(1) rest] Let_def map_upt_Suc funpow_Suc_right shift
        del: upt_Suc of_nat_Suc funpow.simps(2) cong: if_cong)
qed

lemma Draw_loop_nil:
  "SelectedIndex m = Some sel \<Longrightarrow> \<not> list_all (\<lambda>item. image_p item \<noteq> None) items \<Longrightarrow>
   Draw_loop P m index g items = Inl NilPointerDereference"
proof (induction items arbitrary: index g)
  case Nil
  then show ?case by simp
next
  case (Cons item rest)
  show ?case
  proof (cases "image_p item")
    case None
    then show ?thesis using Cons.prems(1) by simp
  next
    case (Some img)
    then have "\<not> list_all (\<lambda>item. image_p item \<noteq> None) rest" using Cons.prems(2) by simp
    from Cons.IH [OF Cons.prems(1) this] show ?thesis
      using Cons.prems(1) Some by (simp add: Let_def)
  qed
qed

lemma exec_call_inv:
  assumes "SelectedIndex m = Some s" and "0 \<le> s" and "s < int (length (MenuItems m))"
    and "c = CallDraw \<longrightarrow> all_images m"
  shows "\<exists>m' s'. exec_call P c m = Inr m' \<and> SelectedIndex m' = Some s' \<and> 0 \<le> s' \<and>
           s' < int (length (MenuItems m')) \<and> MenuItems m' = MenuItems m"
proof (cases c)
  case CallIncrementSelected
  then show ?thesis using assms by (auto simp add: IncrementSelected_def Let_def)
next
  case CallDecrementSelected
  then show ?thesis using assms by (auto simp add: DecrementSelected_def Let_def)
next
  case CallGetSelectedItem
  then show ?thesis using assms by (simp add: GetSelectedItem_def)
next
  case CallDraw
  then have "list_all (\<lambda>item. image_p item \<noteq> None) (MenuItems m)"
    using assms(4) by (simp add: all_images_def)
  then show ?thesis using assms CallDraw by (simp add: Draw_def Draw_loop_eq)
qed

lemma run_calls_inv:
  "SelectedIndex m = Some s \<Longrightarrow> 0 \<le> s \<Longrightarrow> s < int (length (MenuItems m)) \<Longrightarrow>
   (CallDraw \<in> set cs \<longrightarrow> all_images m) \<Longrightarrow>
   \<exists>m' s'. run_calls P cs m = Inr m' \<and> SelectedIndex m' = Some s' \<and> 0 \<le> s' \<and>
           s' < int (length (MenuItems m')) \<and> MenuItems m' = MenuItems m"
proof (induction cs arbitrary: m s)
  case Nil
  then show ?case by simp
next
  case (Cons c cs)
  have d: "c = CallDraw \<longrightarrow> all_images m" using Cons.prems(4) by simp
  obtain m1 s1 where m1: "exec_call P c m = Inr m1" "SelectedIndex m1 = Some s1" "0 \<le> s1"
      "s1 < int (length (MenuItems m1))" "MenuItems m1 = MenuItems m"
    using exec_call_inv [OF Cons.prems(1,2,3) d, of P] by blast
  have d1: "CallDraw \<in> set cs \<longrightarrow> all_images m1"
    using Cons.prems(4) m1(5) by (simp add: all_images_def)
  obtain m' s' where "run_calls P cs m1 = Inr m'" "SelectedIndex m' = Some s'" "0 \<le> s'"
      "s' < int (length (MenuItems m'))" "MenuItems m' = MenuItems m1"
    using Cons.IH [OF m1(2,3,4) d1] by blast
  then show ?case using m1 by simp
qed

lemma run_increments:
  "SelectedIndex m = Some s \<Longrightarrow> 0 \<le> s \<Longrightarrow> s < int (length (MenuItems m)) \<Longrightarrow>
   \<exists>m'. run_calls P (replicate k CallIncrementSelected) m = Inr m'
      \<and> SelectedIndex m' = Some (min (s + int k) (int (length (MenuItems m)) - 1))
      \<and> MenuItems m' = MenuItems m"
proof (induction k arbitrary: m s)
  case 0
  then show ?case by simp
next
  case (Suc k)
  show ?case
  proof (cases "s < int (length (MenuItems m)) - 1")
    case True
    let ?m1 = "m\<lparr>SelectedIndex := Some (s + 1)\<rparr>"
    have step: "IncrementSelected m = Inr ?m1"
      using Suc.prems True by (simp add: IncrementSelected_def Let_def)
    have "\<exists>m'. run_calls P (replicate k CallIncrementSelected) ?m1 = Inr m'
      \<and> SelectedIndex m' = Some (min (s + 1 + int k) (int (length (MenuItems ?m1)) - 1))
      \<and> MenuItems m' = MenuItems ?m1"
      using Suc.prems True by (intro Suc.IH) simp_all
    moreover have "s + 1 + int k = s + int (Suc k)" by simp
    ultimately show ?thesis using step by simp
  next
    case False
    have step: "IncrementSelected m = Inr m"
      using Suc.prems False by (simp add: IncrementSelected_def Let_def)
    have "\<exists>m'. run_calls P (replicate k CallIncrementSelected) m = Inr m'
      \<and> SelectedIndex m' = Some (min (s + int k) (int (length (MenuItems m)) - 1))
      \<and> MenuItems m' = MenuItems m"
      using Suc.prems by (intro Suc.IH)
    moreover have "min (s + int k) (int (length (MenuItems m)) - 1)
        = min (s + int (Suc k)) (int (length (MenuItems m)) - 1)"
      using False Suc.prems by simp
    ultimately show ?thesis using step by simp
  qed
qed

lemma run_decrements:
  "SelectedIndex m = Some s \<Longrightarrow> 0 \<le> s \<Longrightarrow>
   \<exists>m'. run_calls P (replicate k CallDecrementSelected) m = Inr m'
      \<and> SelectedIndex m' = Some (max (s - int k) 0)
      \<and> MenuItems m' = MenuItems m"
proof (induction k arbitrary: m s)
  case 0
  then show ?case by simp
next
  case (Suc k)
  show ?case
  proof (cases "s > 0")
    case True
    let ?m1 = "m\<lparr>SelectedIndex := Some (s - 1)\<rparr>"
    have step: "DecrementSelected m = Inr ?m1"
      using Suc.prems True by (simp add: DecrementSelected_def Let_def)
    have "\<exists>m'. run_calls P (replicate k CallDecrementSelected) ?m1 = Inr m'
      \<and> SelectedIndex m' = Some (max (s - 1 - int k) 0)
      \<and> MenuItems m' = MenuItems ?m1"
      using Suc.prems True by (intro Suc.IH) simp_all
    moreover have "s - 1 - int k = s - int (Suc k)" by simp
    ultimately show ?thesis using step by simp
  next
    case False
    have step: "DecrementSelected m = Inr m"
      using Suc.prems False by (simp add: DecrementSelected_def Let_def)
    have "\<exists>m'. run_calls P (replicate k CallDecrementSelected) m = Inr m'
      \<and> SelectedIndex m' = Some (max (s - int k) 0)
      \<and> MenuItems m' = MenuItems m"
      using Suc.prems by (intro Suc.IH)
    moreover have "max (s - int k) 0 = max (s - int (Suc k)) 0"
      using False Suc.prems by simp
    ultimately show ?thesis using step by simp
  qed
qed


subsection \<open>The menu of main.go, built\<close>

lemma main_menu_built:
  "NewMenu exact_platform newMenuInput 0 =
     Inr \<lparr>ret_menu = mainMenu, ret_err = None, input_items_after = MenuItems mainMenu,
          images_made = 3\<rparr>"
proof -
  have v: "MenuListInput.Width newMenuInput \<noteq> 0" "MenuListInput.Height newMenuInput \<noteq> 0"
    "MenuListInput.MenuItems newMenuInput \<noteq> []"
    by (simp_all add: newMenuInput_def newMenuItems_def)
  show ?thesis
    apply (subst NewMenu_valid [OF v])
    apply (simp add: newMenuInput_def newMenuItems_def exact_platform_def base_menu_def
        resolve_item_def mainMenu_def Let_def)
    done
qed

lemma main_menu_all_images: "all_images mainMenu"
  by (simp add: all_images_def mainMenu_def)


lemma f64_round_164_3:
  "f64_round (128 + 2554385413649203 / 70368744177664) = 2890396167097549 / 17592186044416"
  by (simp add: f64_round_def f64_exponent_def pow2_def Let_def compute_bitlen)

lemma f64_round_200_6:
  "f64_round (2890396167097549 / 17592186044416 + 2554385413649203 / 70368744177664)
     = 1764496260254925 / 8796093022208"
  by (simp add: f64_round_def f64_exponent_def pow2_def Let_def compute_bitlen)

lemma f64_round_128: "f64_round 128 = 128"
  by (simp add: f64_round_def f64_exponent_def pow2_def Let_def compute_bitlen)

lemma f64_round_twice_36_3:
  "f64_round (2 * (2554385413649203 / 70368744177664)) = 2554385413649203 / 35184372088832"
  by (simp add: f64_round_def f64_exponent_def pow2_def Let_def compute_bitlen)

lemma f64_round_closed_200_6:
  "f64_round (128 + 2554385413649203 / 35184372088832) = 7057985041019699 / 35184372088832"
  by (simp add: f64_round_def f64_exponent_def pow2_def Let_def compute_bitlen)


lemma NewMenu_err_cases:
  assumes "NewMenu P input made = Inr out"
  shows "ret_err out =
     (if MenuListInput.Width input = 0 then Some ''Mandatory input field width is missing''
      else if MenuListInput.Height input = 0 then Some ''Mandatory input field height is missing''
      else if MenuListInput.MenuItems input = []
      then Some ''Mandatory input field MenuItems is missing''
      else None)"
proof (cases "MenuListInput.Width input = 0 \<or> MenuListInput.Height input = 0
    \<or> MenuListInput.MenuItems input = []")
  case True
  from NewMenu_invalid [OF True, of P made] assms True show ?thesis by auto
next
  case False
  then have v: "MenuListInput.Width input \<noteq> 0" "MenuListInput.Height input \<noteq> 0"
    "MenuListInput.MenuItems input \<noteq> []"
    by simp_all
  from assms have "ret_err out = None"
    unfolding NewMenu_valid [OF v] by (auto split: sum.splits)
  then show ?thesis using v by simp
qed

lemma NewMenu_all_images:
  assumes "NewMenu P input made = Inr out" and "ret_err out = None"
  shows "all_images (ret_menu out) \<longleftrightarrow>
     (\<forall>i<length (MenuListInput.MenuItems input).
        ebiten_NewImage P (MenuListInput.Width input) (MenuListInput.Height input) (made + i)
          \<noteq> Inr None)"
proof -
  note len = NewMenu_built(5) [OF assms]
  note ret = NewMenu_built(9) [OF assms]
  note nth = NewMenu_built(10) [OF assms]
  have "image_p (MenuItems (ret_menu out) ! i) \<noteq> None \<longleftrightarrow>
      ebiten_NewImage P (MenuListInput.Width input) (MenuListInput.Height input) (made + i)
        \<noteq> Inr None"
    if i: "i < length (MenuListInput.MenuItems input)" for i
  proof -
    obtain r where r: "ebiten_NewImage P (MenuListInput.Width input)
        (MenuListInput.Height input) (made + i) = Inr r"
      using ret i by blast
    show ?thesis using nth i by (simp add: r)
  qed
  then show ?thesis by (simp add: all_images_def list_all_length len)
qed

subsection \<open>Validation\<close>

text \<open>
  C9: when more than one mandatory field is invalid, the error names the fields in a
  fixed order: a zero width is reported whatever the other fields are; a zero height
  is reported when the width is non-zero, whatever the items are; the empty item list
  is reported only when width and height are both non-zero. The three messages differ.
\<close>

theorem NewMenu_error_precedence:
  "(MenuListInput.Width input = 0 \<longrightarrow>
      (\<exists>out. NewMenu P input made = Inr out
         \<and> ret_err out = Some ''Mandatory input field width is missing''))
   \<and> (MenuListInput.Width input \<noteq> 0 \<and> MenuListInput.Height input = 0 \<longrightarrow>
      (\<exists>out. NewMenu P input made = Inr out
         \<and> ret_err out = Some ''Mandatory input field height is missing''))
   \<and> (MenuListInput.Width input \<noteq> 0 \<and> MenuListInput.Height input \<noteq> 0
        \<and> MenuListInput.MenuItems input = [] \<longrightarrow>
      (\<exists>out. NewMenu P input made = Inr out
         \<and> ret_err out = Some ''Mandatory input field MenuItems is missing''))
   \<and> ''Mandatory input field width is missing'' \<noteq> ''Mandatory input field height is missing''
   \<and> ''Mandatory input field width is missing'' \<noteq> ''Mandatory input field MenuItems is missing''
   \<and> ''Mandatory input field height is missing'' \<noteq> ''Mandatory input field MenuItems is missing''"
proof (intro conjI impI)
  assume "MenuListInput.Width input = 0"
  then show "\<exists>out. NewMenu P input made = Inr out
         \<and> ret_err out = Some ''Mandatory input field width is missing''"
    by (simp add: NewMenu_invalid)
next
  assume "MenuListInput.Width input \<noteq> 0 \<and> MenuListInput.Height input = 0"
  then show "\<exists>out. NewMenu P input made = Inr out
         \<and> ret_err out = Some ''Mandatory input field height is missing''"
    by (simp add: NewMenu_invalid)
next
  assume "MenuListInput.Width input \<noteq> 0 \<and> MenuListInput.Height input \<noteq> 0
        \<and> MenuListInput.MenuItems input = []"
  then show "\<exists>out. NewMenu P input made = Inr out
         \<and> ret_err out = Some ''Mandatory input field MenuItems is missing''"
    by (simp add: NewMenu_invalid)
qed simp_all

theorem NewMenu_error_precedence_witness:
  "(\<exists>out. NewMenu exact_platform
      (newMenuInput\<lparr>MenuListInput.Width := 0, MenuListInput.Height := 0,
                     MenuListInput.MenuItems := []\<rparr>) 0 = Inr out
     \<and> ret_err out = Some ''Mandatory input field width is missing'')
   \<and> (\<exists>out. NewMenu exact_platform
      (newMenuInput\<lparr>MenuListInput.Height := 0, MenuListInput.MenuItems := []\<rparr>) 0 = Inr out
     \<and> ret_err out = Some ''Mandatory input field height is missing'')
   \<and> (\<exists>out. NewMenu exact_platform (newMenuInput\<lparr>MenuListInput.MenuItems := []\<rparr>) 0 = Inr out
     \<and> ret_err out = Some ''Mandatory input field MenuItems is missing'')"
proof (intro conjI)
  have a: "MenuListInput.Width
      (newMenuInput\<lparr>MenuListInput.Width := 0, MenuListInput.Height := 0,
                     MenuListInput.MenuItems := []\<rparr>) = 0"
    by simp
  show "\<exists>out. NewMenu exact_platform
      (newMenuInput\<lparr>MenuListInput.Width := 0, MenuListInput.Height := 0,
                     MenuListInput.MenuItems := []\<rparr>) 0 = Inr out
     \<and> ret_err out = Some ''Mandatory input field width is missing''"
    by (rule NewMenu_error_precedence [THEN conjunct1, THEN mp, OF a])
next
  have b: "MenuListInput.Width
        (newMenuInput\<lparr>MenuListInput.Height := 0, MenuListInput.MenuItems := []\<rparr>) \<noteq> 0
      \<and> MenuListInput.Height
        (newMenuInput\<lparr>MenuListInput.Height := 0, MenuListInput.MenuItems := []\<rparr>) = 0"
    by (simp add: newMenuInput_def)
  show "\<exists>out. NewMenu exact_platform
      (newMenuInput\<lparr>MenuListInput.Height := 0, MenuListInput.MenuItems := []\<rparr>) 0 = Inr out
     \<and> ret_err out = Some ''Mandatory input field height is missing''"
    by (rule NewMenu_error_precedence [THEN conjunct2, THEN conjunct1, THEN mp, OF b])
next
  have c: "MenuListInput.Width (newMenuInput\<lparr>MenuListInput.MenuItems := []\<rparr>) \<noteq> 0
      \<and> MenuListInput.Height (newMenuInput\<lparr>MenuListInput.MenuItems := []\<rparr>) \<noteq> 0
      \<and> MenuListInput.MenuItems (newMenuInput\<lparr>MenuListInput.MenuItems := []\<rparr>) = []"
    by (simp add: newMenuInput_def)
  show "\<exists>out. NewMenu exact_platform (newMenuInput\<lparr>MenuListInput.MenuItems := []\<rparr>) 0 = Inr out
     \<and> ret_err out = Some ''Mandatory input field MenuItems is missing''"
    by (rule NewMenu_error_precedence [THEN conjunct2, THEN conjunct2, THEN conjunct1, THEN mp, OF c])
qed

text \<open>
  C10: when \<open>NewMenu\<close> returns an error, the menu it returns is \<open>MenuList{}\<close> (no items,
  no selection cursor), the caller's items are as they were, and no image has been
  made.
\<close>

theorem NewMenu_error_atomic:
  assumes "NewMenu P input made = Inr out" and "ret_err out \<noteq> None"
  shows "ret_menu out = zero_MenuList P
    \<and> MenuItems (ret_menu out) = []
    \<and> SelectedIndex (ret_menu out) = None
    \<and> input_items_after out = MenuListInput.MenuItems input
    \<and> images_made out = made"
proof -
  have bad: "MenuListInput.Width input = 0 \<or> MenuListInput.Height input = 0
    \<or> MenuListInput.MenuItems input = []"
    using assms(2) NewMenu_err_cases [OF assms(1)] by (auto split: if_splits)
  from NewMenu_invalid [OF bad, of P made] assms(1)
  show ?thesis by (auto simp add: zero_MenuList_def)
qed

theorem NewMenu_error_atomic_witness:
  "\<exists>out. NewMenu exact_platform (newMenuInput\<lparr>MenuListInput.Height := 0\<rparr>) 7 = Inr out
     \<and> ret_err out \<noteq> None
     \<and> ret_menu out = zero_MenuList exact_platform
     \<and> input_items_after out = newMenuItems
     \<and> images_made out = 7"
proof -
  have bad: "MenuListInput.Width (newMenuInput\<lparr>MenuListInput.Height := 0\<rparr>) = 0
    \<or> MenuListInput.Height (newMenuInput\<lparr>MenuListInput.Height := 0\<rparr>) = 0
    \<or> MenuListInput.MenuItems (newMenuInput\<lparr>MenuListInput.Height := 0\<rparr>) = []"
    by simp
  obtain out where out: "NewMenu exact_platform (newMenuInput\<lparr>MenuListInput.Height := 0\<rparr>) 7
      = Inr out"
    and e: "ret_err out \<noteq> None"
    using NewMenu_invalid [OF bad, of exact_platform 7] by simp
  have i: "MenuListInput.MenuItems (newMenuInput\<lparr>MenuListInput.Height := 0\<rparr>) = newMenuItems"
    by (simp add: newMenuInput_def)
  from NewMenu_error_atomic [OF out e] out e show ?thesis
    unfolding i by blast
qed

text \<open>
  C2: \<open>NewMenu\<close> returns an error exactly when the width is zero, or the height is
  zero, or there is no item, and the error's message names a field that is indeed
  missing. On any other input it returns no error, and it returns exactly when none
  of its calls of \<open>NewImage\<close> panics; the menu it returns has an image for every item
  exactly when none of these calls returned \<open>nil\<close>. On a menu that was built, no
  sequence of calls of \<open>IncrementSelected\<close>, \<open>DecrementSelected\<close> and
  \<open>GetSelectedItem\<close> panics, and nor does one with calls of \<open>Draw\<close> when every item has
  an image.
\<close>

theorem NewMenu_validation:
  "((\<exists>out. NewMenu P input made = Inr out \<and> ret_err out \<noteq> None) \<longleftrightarrow>
      MenuListInput.Width input = 0 \<or> MenuListInput.Height input = 0
      \<or> MenuListInput.MenuItems input = [])
   \<and> (\<forall>out e. NewMenu P input made = Inr out \<and> ret_err out = Some e \<longrightarrow>
        (e = ''Mandatory input field width is missing'' \<and> MenuListInput.Width input = 0)
        \<or> (e = ''Mandatory input field height is missing'' \<and> MenuListInput.Height input = 0)
        \<or> (e = ''Mandatory input field MenuItems is missing''
            \<and> MenuListInput.MenuItems input = []))
   \<and> (MenuListInput.Width input \<noteq> 0 \<and> MenuListInput.Height input \<noteq> 0
        \<and> MenuListInput.MenuItems input \<noteq> [] \<longrightarrow>
        ((\<exists>out. NewMenu P input made = Inr out \<and> ret_err out = None) \<longleftrightarrow>
         (\<forall>i<length (MenuListInput.MenuItems input).
            \<exists>r. ebiten_NewImage P (MenuListInput.Width input) (MenuListInput.Height input)
                  (made + i) = Inr r)))
   \<and> (\<forall>out. NewMenu P input made = Inr out \<and> ret_err out = None \<longrightarrow>
        (all_images (ret_menu out) \<longleftrightarrow>
           (\<forall>i<length (MenuListInput.MenuItems input).
              ebiten_NewImage P (MenuListInput.Width input) (MenuListInput.Height input)
                (made + i) \<noteq> Inr None))
        \<and> (\<forall>cs. (CallDraw \<in> set cs \<longrightarrow> all_images (ret_menu out)) \<longrightarrow>
              (\<exists>m'. run_calls P cs (ret_menu out) = Inr m')))"
proof (intro conjI allI impI)
  show "(\<exists>out. NewMenu P input made = Inr out \<and> ret_err out \<noteq> None) \<longleftrightarrow>
      MenuListInput.Width input = 0 \<or> MenuListInput.Height input = 0
      \<or> MenuListInput.MenuItems input = []"
  proof
    assume "\<exists>out. NewMenu P input made = Inr out \<and> ret_err out \<noteq> None"
    then obtain out where "NewMenu P input made = Inr out" "ret_err out \<noteq> None" by blast
    then show "MenuListInput.Width input = 0 \<or> MenuListInput.Height input = 0
      \<or> MenuListInput.MenuItems input = []"
      using NewMenu_err_cases [of P input made out] by (auto split: if_splits)
  next
    assume "MenuListInput.Width input = 0 \<or> MenuListInput.Height input = 0
      \<or> MenuListInput.MenuItems input = []"
    from NewMenu_invalid [OF this, of P made]
    show "\<exists>out. NewMenu P input made = Inr out \<and> ret_err out \<noteq> None" by simp
  qed
next
  fix out e
  assume "NewMenu P input made = Inr out \<and> ret_err out = Some e"
  then show "(e = ''Mandatory input field width is missing'' \<and> MenuListInput.Width input = 0)
        \<or> (e = ''Mandatory input field height is missing'' \<and> MenuListInput.Height input = 0)
        \<or> (e = ''Mandatory input field MenuItems is missing''
            \<and> MenuListInput.MenuItems input = [])"
    using NewMenu_err_cases [of P input made out] by (auto split: if_splits)
next
  assume "MenuListInput.Width input \<noteq> 0 \<and> MenuListInput.Height input \<noteq> 0
        \<and> MenuListInput.MenuItems input \<noteq> []"
  then show "(\<exists>out. NewMenu P input made = Inr out \<and> ret_err out = None) \<longleftrightarrow>
         (\<forall>i<length (MenuListInput.MenuItems input).
            \<exists>r. ebiten_NewImage P (MenuListInput.Width input) (MenuListInput.Height input)
                  (made + i) = Inr r)"
    by (intro NewMenu_returns) simp_all
next
  fix out
  assume "NewMenu P input made = Inr out \<and> ret_err out = None"
  then show "all_images (ret_menu out) \<longleftrightarrow>
           (\<forall>i<length (MenuListInput.MenuItems input).
              ebiten_NewImage P (MenuListInput.Width input) (MenuListInput.Height input)
                (made + i) \<noteq> Inr None)"
    by (intro NewMenu_all_images) simp_all
next
  fix out cs
  assume b: "NewMenu P input made = Inr out \<and> ret_err out = None"
    and d: "CallDraw \<in> set cs \<longrightarrow> all_images (ret_menu out)"
  from b have built: "NewMenu P input made = Inr out" and ok: "ret_err out = None" by simp_all
  have pos: "(0::int) < int (length (MenuItems (ret_menu out)))"
    using NewMenu_built(3,5) [OF built ok] by simp
  show "\<exists>m'. run_calls P cs (ret_menu out) = Inr m'"
    using run_calls_inv [OF NewMenu_built(4) [OF built ok] order_refl pos d, of P] by blast
qed

theorem NewMenu_validation_witness:
  "(\<exists>out. NewMenu exact_platform (newMenuInput\<lparr>MenuListInput.Width := 0\<rparr>) 0 = Inr out
      \<and> ret_err out = Some ''Mandatory input field width is missing'')
   \<and> MenuListInput.Width (newMenuInput\<lparr>MenuListInput.Width := 0\<rparr>) = 0
   \<and> NewMenu exact_platform newMenuInput 0 =
       Inr \<lparr>ret_menu = mainMenu, ret_err = None, input_items_after = MenuItems mainMenu,
            images_made = 3\<rparr>
   \<and> (\<exists>r. ebiten_NewImage exact_platform (MenuListInput.Width newMenuInput)
               (MenuListInput.Height newMenuInput) (0 + 2) = Inr r)
   \<and> all_images mainMenu
   \<and> (\<exists>m'. run_calls exact_platform
          [CallIncrementSelected, CallDraw, CallGetSelectedItem, CallDecrementSelected]
          mainMenu = Inr m')"
proof -
  let ?bad = "newMenuInput\<lparr>MenuListInput.Width := 0\<rparr>"
  let ?out = "\<lparr>ret_menu = mainMenu, ret_err = None, input_items_after = MenuItems mainMenu,
            images_made = 3\<rparr> :: real NewMenu_outcome"
  note tb = NewMenu_validation [of exact_platform ?bad 0]
  note tg = NewMenu_validation [of exact_platform newMenuInput 0]
  have w: "MenuListInput.Width ?bad = 0" by simp
  have h: "MenuListInput.Height ?bad \<noteq> 0" and i: "MenuListInput.MenuItems ?bad \<noteq> []"
    by (simp_all add: newMenuInput_def newMenuItems_def)
  obtain out where out: "NewMenu exact_platform ?bad 0 = Inr out" and e: "ret_err out \<noteq> None"
    using tb [THEN conjunct1, THEN iffD2, OF disjI1, OF w] by blast
  obtain msg where msg: "ret_err out = Some msg" using e by (cases "ret_err out") simp_all
  have "(msg = ''Mandatory input field width is missing'' \<and> MenuListInput.Width ?bad = 0)
        \<or> (msg = ''Mandatory input field height is missing'' \<and> MenuListInput.Height ?bad = 0)
        \<or> (msg = ''Mandatory input field MenuItems is missing''
            \<and> MenuListInput.MenuItems ?bad = [])"
    by (rule tb [THEN conjunct2, THEN conjunct1, THEN spec, THEN spec, THEN mp,
          OF conjI [OF out msg]])
  then have "msg = ''Mandatory input field width is missing''" using h i by blast
  then have a: "\<exists>out. NewMenu exact_platform ?bad 0 = Inr out
      \<and> ret_err out = Some ''Mandatory input field width is missing''"
    using out msg by blast
  have v: "MenuListInput.Width newMenuInput \<noteq> 0 \<and> MenuListInput.Height newMenuInput \<noteq> 0
        \<and> MenuListInput.MenuItems newMenuInput \<noteq> []"
    by (simp add: newMenuInput_def newMenuItems_def)
  have ok: "NewMenu exact_platform newMenuInput 0 = Inr ?out \<and> ret_err ?out = None"
    by (simp add: main_menu_built)
  then have ex: "\<exists>out. NewMenu exact_platform newMenuInput 0 = Inr out \<and> ret_err out = None"
    by blast
  have "\<forall>i<length (MenuListInput.MenuItems newMenuInput).
         \<exists>r. ebiten_NewImage exact_platform (MenuListInput.Width newMenuInput)
               (MenuListInput.Height newMenuInput) (0 + i) = Inr r"
    by (rule tg [THEN conjunct2, THEN conjunct2, THEN conjunct1, THEN mp, OF v, THEN iffD1,
          OF ex])
  moreover have "2 < length (MenuListInput.MenuItems newMenuInput)"
    by (simp add: newMenuInput_def newMenuItems_def)
  ultimately have b: "\<exists>r. ebiten_NewImage exact_platform (MenuListInput.Width newMenuInput)
               (MenuListInput.Height newMenuInput) (0 + 2) = Inr r"
    by blast
  have nonil: "\<forall>i<length (MenuListInput.MenuItems newMenuInput).
       ebiten_NewImage exact_platform (MenuListInput.Width newMenuInput)
         (MenuListInput.Height newMenuInput) (0 + i) \<noteq> Inr None"
    by (simp add: exact_platform_def)
  note last = tg [THEN conjunct2, THEN conjunct2, THEN conjunct2, THEN spec, THEN mp, OF ok]
  have c: "all_images (ret_menu ?out)"
    by (rule last [THEN conjunct1, THEN iffD2, OF nonil])
  then have c': "all_images mainMenu" by simp
  have "\<exists>m'. run_calls exact_platform
          [CallIncrementSelected, CallDraw, CallGetSelectedItem, CallDecrementSelected]
          (ret_menu ?out) = Inr m'"
    by (rule last [THEN conjunct2, THEN spec, THEN mp]) (simp add: c')
  then have d: "\<exists>m'. run_calls exact_platform
          [CallIncrementSelected, CallDraw, CallGetSelectedItem, CallDecrementSelected]
          mainMenu = Inr m'"
    by simp
  from a w main_menu_built b c' d show ?thesis by (intro conjI)
qed

text \<open>
  Passing the three tests is not enough for \<open>NewMenu\<close> to return a menu, and a built
  menu is not enough for \<open>Draw\<close> to return. An input with width -1 passes the three
  tests, and the first call of \<open>NewImage\<close> panics: \<open>NewMenu\<close> returns neither an error
  nor a menu. And when \<open>NewImage\<close> returns \<open>nil\<close> with an error, which \<open>NewMenu\<close> drops,
  the menu is built without images and \<open>Draw\<close> panics on it.
\<close>

theorem NewMenu_validation_counterexample:
  "MenuListInput.Width (newMenuInput\<lparr>MenuListInput.Width := - 1\<rparr>) \<noteq> 0
   \<and> MenuListInput.Height (newMenuInput\<lparr>MenuListInput.Width := - 1\<rparr>) \<noteq> 0
   \<and> MenuListInput.MenuItems (newMenuInput\<lparr>MenuListInput.Width := - 1\<rparr>) \<noteq> []
   \<and> NewMenu binary64_platform (newMenuInput\<lparr>MenuListInput.Width := - 1\<rparr>) 0
       = Inl EbitenPanic
   \<and> \<not> isl (NewMenu no_image_platform newMenuInput 0)
   \<and> ret_err (projr (NewMenu no_image_platform newMenuInput 0)) = None
   \<and> Draw no_image_platform (ret_menu (projr (NewMenu no_image_platform newMenuInput 0)))
       = Inl NilPointerDereference"
proof -
  let ?neg = "newMenuInput\<lparr>MenuListInput.Width := - 1\<rparr>"
  have v: "MenuListInput.Width ?neg \<noteq> 0" "MenuListInput.Height ?neg \<noteq> 0"
    "MenuListInput.MenuItems ?neg \<noteq> []"
    by (simp_all add: newMenuInput_def newMenuItems_def)
  have p: "NewMenu binary64_platform ?neg 0 = Inl EbitenPanic"
    apply (subst NewMenu_valid [OF v])
    apply (simp add: newMenuInput_def newMenuItems_def binary64_platform_def base_menu_def)
    done
  have v': "MenuListInput.Width newMenuInput \<noteq> 0" "MenuListInput.Height newMenuInput \<noteq> 0"
    "MenuListInput.MenuItems newMenuInput \<noteq> []"
    by (simp_all add: newMenuInput_def newMenuItems_def)
  have nil: "ebiten_NewImage no_image_platform w h k = Inr None" for w h k
    by (simp add: no_image_platform_def)
  obtain out where out: "NewMenu no_image_platform newMenuInput 0 = Inr out"
    and ok: "ret_err out = None"
    using NewMenu_returns [OF v', of no_image_platform 0] by (auto simp add: nil)
  have "0 < length (MenuListInput.MenuItems newMenuInput)" using v'(3) by simp
  then have "\<not> all_images (ret_menu out)"
    by (auto simp add: NewMenu_all_images [OF out ok] nil)
  then have "\<not> list_all (\<lambda>item. image_p item \<noteq> None) (MenuItems (ret_menu out))"
    by (simp add: all_images_def)
  from Draw_loop_nil [OF NewMenu_built(4) [OF out ok] this]
  have d: "Draw no_image_platform (ret_menu out) = Inl NilPointerDereference"
    by (simp add: Draw_def)
  from v p out ok d show ?thesis by simp
qed

subsection \<open>Offsets\<close>

text \<open>
  C7: in a menu that was built, \<open>Offy\<close> is the input's \<open>Offy\<close> unless that compares
  equal to zero, and then it is the input's height converted to \<open>float64\<close>; \<open>Offx\<close> is
  the input's \<open>Offx\<close>, whatever it is.
\<close>

theorem NewMenu_offsets:
  assumes "NewMenu P input made = Inr out" and "ret_err out = None"
  shows "Offy (ret_menu out) =
           (if f64_eq_zero P (MenuListInput.Offy input)
            then f64_of_int P (MenuListInput.Height input)
            else MenuListInput.Offy input)
    \<and> Offx (ret_menu out) = MenuListInput.Offx input"
proof -
  have "Offy (ret_menu out) = Offy (base_menu P input)"
    and "Offx (ret_menu out) = Offx (base_menu P input)"
    by (subst NewMenu_built(6) [OF assms], simp)+
  then show ?thesis by (simp add: base_menu_def)
qed

theorem NewMenu_offsets_witness:
  "NewMenu exact_platform newMenuInput 0 =
       Inr \<lparr>ret_menu = mainMenu, ret_err = None, input_items_after = MenuItems mainMenu,
            images_made = 3\<rparr>
   \<and> Offy mainMenu = 36 \<and> Offx mainMenu = 0
   \<and> (\<exists>out. NewMenu exact_platform (newMenuInput\<lparr>MenuListInput.Offy := 40\<rparr>) 0 = Inr out
        \<and> ret_err out = None \<and> Offy (ret_menu out) = 40)"
proof -
  let ?out = "\<lparr>ret_menu = mainMenu, ret_err = None, input_items_after = MenuItems mainMenu,
            images_made = 3\<rparr> :: real NewMenu_outcome"
  have ok: "ret_err ?out = None" by simp
  have "Offy (ret_menu ?out) =
           (if f64_eq_zero exact_platform (MenuListInput.Offy newMenuInput)
            then f64_of_int exact_platform (MenuListInput.Height newMenuInput)
            else MenuListInput.Offy newMenuInput)
    \<and> Offx (ret_menu ?out) = MenuListInput.Offx newMenuInput"
    by (rule NewMenu_offsets [OF main_menu_built ok])
  then have a: "Offy mainMenu = 36 \<and> Offx mainMenu = 0"
    by (simp add: exact_platform_def newMenuInput_def)
  let ?inp = "newMenuInput\<lparr>MenuListInput.Offy := 40\<rparr>"
  have v: "MenuListInput.Width ?inp \<noteq> 0" "MenuListInput.Height ?inp \<noteq> 0"
    "MenuListInput.MenuItems ?inp \<noteq> []"
    by (simp_all add: newMenuInput_def newMenuItems_def)
  obtain out where out: "NewMenu exact_platform ?inp 0 = Inr out" and ok': "ret_err out = None"
    using NewMenu_returns [OF v, of exact_platform 0] by (auto simp add: exact_platform_def)
  have "Offy (ret_menu out) = 40"
    using NewMenu_offsets [OF out ok'] by (simp add: exact_platform_def)
  then have b: "\<exists>out. NewMenu exact_platform ?inp 0 = Inr out
        \<and> ret_err out = None \<and> Offy (ret_menu out) = 40"
    using out ok' by blast
  from main_menu_built a b show ?thesis by (intro conjI) simp_all
qed

subsection \<open>Colours and text offsets of the items\<close>

text \<open>
  C1: in a menu that was built, the items are the input's items in the same number,
  and each of the four colours of each item is set: it is the colour the input's item
  gave for that field if it gave one, and otherwise the menu's default for that field;
  the menu's default is the one the input gave if it gave one, and otherwise cyan
  (background), black (text), magenta (selected background), white (selected text).
\<close>

theorem NewMenu_colours:
  assumes "NewMenu P input made = Inr out" and "ret_err out = None"
    and "i < length (MenuListInput.MenuItems input)"
  shows "length (MenuItems (ret_menu out)) = length (MenuListInput.MenuItems input)
    \<and> DefaultBgColour (ret_menu out) =
        Some (case MenuListInput.DefaultBgColour input of
                Some d \<Rightarrow> d | None \<Rightarrow> NRGBA 0x00 0xff 0xff 0xff)
    \<and> DefaultTxtColour (ret_menu out) =
        Some (case MenuListInput.DefaultTxtColour input of
                Some d \<Rightarrow> d | None \<Rightarrow> NRGBA 0x00 0x00 0x00 0xff)
    \<and> DefaultSelBgColour (ret_menu out) =
        Some (case DefaultSelBGColour input of
                Some d \<Rightarrow> d | None \<Rightarrow> NRGBA 0xff 0x00 0xff 0xff)
    \<and> DefaultSelTxtColour (ret_menu out) =
        Some (case MenuListInput.DefaultSelTxtColour input of
                Some d \<Rightarrow> d | None \<Rightarrow> NRGBA 0xff 0xff 0xff 0xff)
    \<and> BgColour (MenuItems (ret_menu out) ! i) =
        (case BgColour (MenuListInput.MenuItems input ! i) of
           Some c \<Rightarrow> Some c
         | None \<Rightarrow> DefaultBgColour (ret_menu out))
    \<and> TxtColour (MenuItems (ret_menu out) ! i) =
        (case TxtColour (MenuListInput.MenuItems input ! i) of
           Some c \<Rightarrow> Some c
         | None \<Rightarrow> DefaultTxtColour (ret_menu out))
    \<and> SelBgColour (MenuItems (ret_menu out) ! i) =
        (case SelBgColour (MenuListInput.MenuItems input ! i) of
           Some c \<Rightarrow> Some c
         | None \<Rightarrow> DefaultSelBgColour (ret_menu out))
    \<and> SelTxtColour (MenuItems (ret_menu out) ! i) =
        (case SelTxtColour (MenuListInput.MenuItems input ! i) of
           Some c \<Rightarrow> Some c
         | None \<Rightarrow> DefaultSelTxtColour (ret_menu out))
    \<and> BgColour (MenuItems (ret_menu out) ! i) \<noteq> None
    \<and> TxtColour (MenuItems (ret_menu out) ! i) \<noteq> None
    \<and> SelBgColour (MenuItems (ret_menu out) ! i) \<noteq> None
    \<and> SelTxtColour (MenuItems (ret_menu out) ! i) \<noteq> None"
proof -
  have nth: "MenuItems (ret_menu out) ! i =
             (resolve_item (base_menu P input) (MenuListInput.MenuItems input ! i))
               \<lparr>image_p := projr (ebiten_NewImage P (MenuListInput.Width input)
                                    (MenuListInput.Height input) (made + i))\<rparr>"
    using NewMenu_built(10) [OF assms(1,2)] assms(3) by blast
  have b1: "DefaultBgColour (ret_menu out) = DefaultBgColour (base_menu P input)"
    by (subst NewMenu_built(6) [OF assms(1,2)], simp)
  have d1: "DefaultBgColour (ret_menu out) =
        Some (case MenuListInput.DefaultBgColour input of
                Some d \<Rightarrow> d | None \<Rightarrow> NRGBA 0x00 0xff 0xff 0xff)"
    unfolding b1 by (simp add: base_menu_def split: option.splits)
  have c1: "BgColour (MenuItems (ret_menu out) ! i) =
        (case BgColour (MenuListInput.MenuItems input ! i) of
           Some c \<Rightarrow> Some c
         | None \<Rightarrow> DefaultBgColour (ret_menu out))"
    unfolding b1 using nth by (simp add: resolve_item_def Let_def split: option.splits)
  have n1: "BgColour (MenuItems (ret_menu out) ! i) \<noteq> None"
    unfolding c1 d1 by (simp split: option.splits)
  have b2: "DefaultTxtColour (ret_menu out) = DefaultTxtColour (base_menu P input)"
    by (subst NewMenu_built(6) [OF assms(1,2)], simp)
  have d2: "DefaultTxtColour (ret_menu out) =
        Some (case MenuListInput.DefaultTxtColour input of
                Some d \<Rightarrow> d | None \<Rightarrow> NRGBA 0x00 0x00 0x00 0xff)"
    unfolding b2 by (simp add: base_menu_def split: option.splits)
  have c2: "TxtColour (MenuItems (ret_menu out) ! i) =
        (case TxtColour (MenuListInput.MenuItems input ! i) of
           Some c \<Rightarrow> Some c
         | None \<Rightarrow> DefaultTxtColour (ret_menu out))"
    unfolding b2 using nth by (simp add: resolve_item_def Let_def split: option.splits)
  have n2: "TxtColour (MenuItems (ret_menu out) ! i) \<noteq> None"
    unfolding c2 d2 by (simp split: option.splits)
  have b3: "DefaultSelBgColour (ret_menu out) = DefaultSelBgColour (base_menu P input)"
    by (subst NewMenu_built(6) [OF assms(1,2)], simp)
  have d3: "DefaultSelBgColour (ret_menu out) =
        Some (case DefaultSelBGColour input of
                Some d \<Rightarrow> d | None \<Rightarrow> NRGBA 0xff 0x00 0xff 0xff)"
    unfolding b3 by (simp add: base_menu_def split: option.splits)
  have c3: "SelBgColour (MenuItems (ret_menu out) ! i) =
        (case SelBgColour (MenuListInput.MenuItems input ! i) of
           Some c \<Rightarrow> Some c
         | None \<Rightarrow> DefaultSelBgColour (ret_menu out))"
    unfolding b3 using nth by (simp add: resolve_item_def Let_def split: option.splits)
  have n3: "SelBgColour (MenuItems (ret_menu out) ! i) \<noteq> None"
    unfolding c3 d3 by (simp split: option.splits)
  have b4: "DefaultSelTxtColour (ret_menu out) = DefaultSelTxtColour (base_menu P input)"
    by (subst NewMenu_built(6) [OF assms(1,2)], simp)
  have d4: "DefaultSelTxtColour (ret_menu out) =
        Some (case MenuListInput.DefaultSelTxtColour input of
                Some d \<Rightarrow> d | None \<Rightarrow> NRGBA 0xff 0xff 0xff 0xff)"
    unfolding b4 by (simp add: base_menu_def split: option.splits)
  have c4: "SelTxtColour (MenuItems (ret_menu out) ! i) =
        (case SelTxtColour (MenuListInput.MenuItems input ! i) of
           Some c \<Rightarrow> Some c
         | None \<Rightarrow> DefaultSelTxtColour (ret_menu out))"
    unfolding b4 using nth by (simp add: resolve_item_def Let_def split: option.splits)
  have n4: "SelTxtColour (MenuItems (ret_menu out) ! i) \<noteq> None"
    unfolding c4 d4 by (simp split: option.splits)
  from NewMenu_built(5) [OF assms(1,2)] d1 d2 d3 d4 c1 c2 c3 c4 n1 n2 n3 n4
  show ?thesis by (intro conjI)
qed

theorem NewMenu_colours_witness:
  "NewMenu exact_platform newMenuInput 0 =
       Inr \<lparr>ret_menu = mainMenu, ret_err = None, input_items_after = MenuItems mainMenu,
            images_made = 3\<rparr>
   \<and> (1::nat) < length (MenuListInput.MenuItems newMenuInput)
   \<and> BgColour (MenuItems mainMenu ! 1) = Some green2
   \<and> TxtColour (MenuItems mainMenu ! 1) = Some (NRGBA 0x00 0x00 0x00 0xff)
   \<and> SelBgColour (MenuItems mainMenu ! 1) = Some purple3
   \<and> SelTxtColour (MenuItems mainMenu ! 1) = Some (NRGBA 0xff 0xff 0xff 0xff)"
proof -
  let ?out = "\<lparr>ret_menu = mainMenu, ret_err = None, input_items_after = MenuItems mainMenu,
            images_made = 3\<rparr> :: real NewMenu_outcome"
  have ok: "ret_err ?out = None" by simp
  have i: "(1::nat) < length (MenuListInput.MenuItems newMenuInput)"
    by (simp add: newMenuInput_def newMenuItems_def)
  note t = NewMenu_colours [OF main_menu_built ok i]
  have "BgColour (MenuItems mainMenu ! 1) = Some green2"
    using t by (simp add: newMenuInput_def newMenuItems_def)
  moreover
  have "TxtColour (MenuItems mainMenu ! 1) = Some (NRGBA 0x00 0x00 0x00 0xff)"
    using t by (simp add: newMenuInput_def newMenuItems_def)
  moreover
  have "SelBgColour (MenuItems mainMenu ! 1) = Some purple3"
    using t by (simp add: newMenuInput_def newMenuItems_def)
  moreover
  have "SelTxtColour (MenuItems mainMenu ! 1) = Some (NRGBA 0xff 0xff 0xff 0xff)"
    using t by (simp add: newMenuInput_def newMenuItems_def)
  ultimately show ?thesis using main_menu_built i by (intro conjI)
qed

text \<open>
  C8: in a menu that was built, an item whose \<open>TxtY\<close> was zero in the input has \<open>TxtY\<close>
  equal to the height minus five (in Go's \<open>int\<close> arithmetic), and an item whose \<open>TxtY\<close>
  was not zero keeps it; with a height of 36 an item that gave no \<open>TxtY\<close> has 31.
\<close>

theorem NewMenu_TxtY:
  assumes "NewMenu P input made = Inr out" and "ret_err out = None"
    and "i < length (MenuListInput.MenuItems input)"
  shows "TxtY (MenuItems (ret_menu out) ! i) =
           (if TxtY (MenuListInput.MenuItems input ! i) = 0
            then MenuListInput.Height input - 5
            else TxtY (MenuListInput.MenuItems input ! i))
    \<and> (MenuListInput.Height input = 36 \<and> TxtY (MenuListInput.MenuItems input ! i) = 0
        \<longrightarrow> TxtY (MenuItems (ret_menu out) ! i) = 31)"
proof -
  have nth: "MenuItems (ret_menu out) ! i =
             (resolve_item (base_menu P input) (MenuListInput.MenuItems input ! i))
               \<lparr>image_p := projr (ebiten_NewImage P (MenuListInput.Width input)
                                    (MenuListInput.Height input) (made + i))\<rparr>"
    using NewMenu_built(10) [OF assms(1,2)] assms(3) by blast
  have "TxtY (MenuItems (ret_menu out) ! i) =
           (if TxtY (MenuListInput.MenuItems input ! i) = 0
            then MenuListInput.Height input - 5
            else TxtY (MenuListInput.MenuItems input ! i))"
    by (simp add: nth resolve_item_def base_menu_def Let_def)
  then show ?thesis by simp
qed

theorem NewMenu_TxtY_witness:
  "(\<exists>out. NewMenu exact_platform
      (newMenuInput\<lparr>MenuListInput.MenuItems :=
         [\<lparr>Name = ''A'', Text = ''A'', TxtX = 0, TxtY = 0, image_p = None, BgColour = None,
           TxtColour = None, SelBgColour = None, SelTxtColour = None\<rparr>]\<rparr>) 0 = Inr out
      \<and> ret_err out = None
      \<and> TxtY (MenuItems (ret_menu out) ! 0) = 31)
   \<and> MenuListInput.Height newMenuInput = 36
   \<and> NewMenu exact_platform newMenuInput 0 =
       Inr \<lparr>ret_menu = mainMenu, ret_err = None, input_items_after = MenuItems mainMenu,
            images_made = 3\<rparr>
   \<and> TxtY (MenuItems mainMenu ! 2) = 25"
proof -
  let ?inp = "newMenuInput\<lparr>MenuListInput.MenuItems :=
         [\<lparr>Name = ''A'', Text = ''A'', TxtX = 0, TxtY = 0, image_p = None, BgColour = None,
           TxtColour = None, SelBgColour = None, SelTxtColour = None\<rparr>]\<rparr>"
  let ?out = "\<lparr>ret_menu = mainMenu, ret_err = None, input_items_after = MenuItems mainMenu,
            images_made = 3\<rparr> :: real NewMenu_outcome"
  have v: "MenuListInput.Width ?inp \<noteq> 0" "MenuListInput.Height ?inp \<noteq> 0"
    "MenuListInput.MenuItems ?inp \<noteq> []"
    by (simp_all add: newMenuInput_def)
  obtain out where out: "NewMenu exact_platform ?inp 0 = Inr out" and ok: "ret_err out = None"
    using NewMenu_returns [OF v, of exact_platform 0] by (auto simp add: exact_platform_def)
  have i: "(0::nat) < length (MenuListInput.MenuItems ?inp)" by simp
  have h: "MenuListInput.Height newMenuInput = 36" by (simp add: newMenuInput_def)
  have "TxtY (MenuItems (ret_menu out) ! 0) = 31"
    using NewMenu_TxtY [OF out ok i, THEN conjunct2] h by simp
  then have a: "\<exists>out. NewMenu exact_platform ?inp 0 = Inr out \<and> ret_err out = None
      \<and> TxtY (MenuItems (ret_menu out) ! 0) = 31"
    using out ok by blast
  have ok': "ret_err ?out = None" by simp
  have j: "(2::nat) < length (MenuListInput.MenuItems newMenuInput)"
    by (simp add: newMenuInput_def newMenuItems_def)
  have b: "TxtY (MenuItems mainMenu ! 2) = 25"
    using NewMenu_TxtY [OF main_menu_built ok' j, THEN conjunct1]
    by (simp add: newMenuInput_def newMenuItems_def)
  from a h main_menu_built b show ?thesis by (intro conjI)
qed

subsection \<open>Selection\<close>

text \<open>
  C3: a menu that was built has its cursor at 0. \<open>IncrementSelected\<close> adds one to
  a cursor below \<open>len - 1\<close> and leaves any other cursor as it is;
  \<open>DecrementSelected\<close> subtracts one from a cursor above 0 and leaves any other cursor
  as it is. From the built menu, \<open>len + 5\<close> increments in a row leave the cursor at
  \<open>len - 1\<close>, and any number of decrements in a row leave it at 0.
\<close>

theorem selection_clamps:
  assumes "NewMenu P input made = Inr out" and "ret_err out = None"
  shows "SelectedIndex (ret_menu out) = Some 0
    \<and> (\<forall>m s. SelectedIndex m = Some s \<longrightarrow>
          IncrementSelected (m :: 'f MenuList) =
            Inr (if s < int (length (MenuItems m)) - 1
                 then m\<lparr>SelectedIndex := Some (s + 1)\<rparr> else m))
    \<and> (\<forall>m s. SelectedIndex m = Some s \<longrightarrow>
          DecrementSelected (m :: 'f MenuList) =
            Inr (if s > 0 then m\<lparr>SelectedIndex := Some (s - 1)\<rparr> else m))
    \<and> (\<exists>m'. run_calls P
               (replicate (length (MenuListInput.MenuItems input) + 5) CallIncrementSelected)
               (ret_menu out) = Inr m'
            \<and> SelectedIndex m' = Some (int (length (MenuListInput.MenuItems input)) - 1))
    \<and> (\<forall>k. \<exists>m'. run_calls P (replicate k CallDecrementSelected) (ret_menu out) = Inr m'
            \<and> SelectedIndex m' = Some 0)"
proof (intro conjI allI impI)
  note sel = NewMenu_built(4) [OF assms]
  note len = NewMenu_built(5) [OF assms]
  have pos: "(0::int) < int (length (MenuItems (ret_menu out)))"
    using len NewMenu_built(3) [OF assms] by simp
  show "SelectedIndex (ret_menu out) = Some 0" by (rule sel)
  show "IncrementSelected m =
          Inr (if s < int (length (MenuItems m)) - 1
               then m\<lparr>SelectedIndex := Some (s + 1)\<rparr> else m)"
    if "SelectedIndex m = Some s" for m :: "'f MenuList" and s
    using that by (simp add: IncrementSelected_def Let_def)
  show "DecrementSelected m = Inr (if s > 0 then m\<lparr>SelectedIndex := Some (s - 1)\<rparr> else m)"
    if "SelectedIndex m = Some s" for m :: "'f MenuList" and s
    using that by (simp add: DecrementSelected_def Let_def)
  show "\<exists>m'. run_calls P
               (replicate (length (MenuListInput.MenuItems input) + 5) CallIncrementSelected)
               (ret_menu out) = Inr m'
            \<and> SelectedIndex m' = Some (int (length (MenuListInput.MenuItems input)) - 1)"
    using run_increments [OF sel order_refl pos, of P "length (MenuListInput.MenuItems input) + 5"]
    by (auto simp add: len)
  show "\<exists>m'. run_calls P (replicate k CallDecrementSelected) (ret_menu out) = Inr m'
            \<and> SelectedIndex m' = Some 0" for k
    using run_decrements [OF sel order_refl, of P k] by auto
qed

theorem selection_clamps_witness:
  "NewMenu exact_platform newMenuInput 0 =
       Inr \<lparr>ret_menu = mainMenu, ret_err = None, input_items_after = MenuItems mainMenu,
            images_made = 3\<rparr>
   \<and> SelectedIndex mainMenu = Some 0
   \<and> IncrementSelected mainMenu = Inr (mainMenu\<lparr>SelectedIndex := Some 1\<rparr>)
   \<and> DecrementSelected mainMenu = Inr mainMenu
   \<and> (\<exists>m'. run_calls exact_platform (replicate 8 CallIncrementSelected) mainMenu = Inr m'
            \<and> SelectedIndex m' = Some 2)"
proof -
  let ?out = "\<lparr>ret_menu = mainMenu, ret_err = None, input_items_after = MenuItems mainMenu,
            images_made = 3\<rparr> :: real NewMenu_outcome"
  have ok: "ret_err ?out = None" by simp
  have m: "ret_menu ?out = mainMenu" by simp
  note t = selection_clamps [OF main_menu_built ok, unfolded m]
  have sel: "SelectedIndex mainMenu = Some 0"
    by (rule t [THEN conjunct1])
  have len: "length (MenuItems mainMenu) = 3"
    by (simp add: mainMenu_def)
  have inc: "IncrementSelected mainMenu = Inr (mainMenu\<lparr>SelectedIndex := Some 1\<rparr>)"
    using t [THEN conjunct2, THEN conjunct1, THEN spec, THEN spec, THEN mp, OF sel]
    by (simp add: len)
  have dec: "DecrementSelected mainMenu = Inr mainMenu"
    using t [THEN conjunct2, THEN conjunct2, THEN conjunct1, THEN spec, THEN spec, THEN mp, OF sel]
    by simp
  have n: "length (MenuListInput.MenuItems newMenuInput) + 5 = 8"
    by (simp add: newMenuInput_def newMenuItems_def)
  have run: "\<exists>m'. run_calls exact_platform (replicate 8 CallIncrementSelected) mainMenu = Inr m'
            \<and> SelectedIndex m' = Some 2"
    using t [THEN conjunct2, THEN conjunct2, THEN conjunct2, THEN conjunct1]
    unfolding n by (simp add: newMenuInput_def newMenuItems_def)
  from main_menu_built sel inc dec run show ?thesis by (intro conjI)
qed

text \<open>
  C4: from a menu that was built, after any sequence of calls of \<open>IncrementSelected\<close>,
  \<open>DecrementSelected\<close> and \<open>GetSelectedItem\<close>, and of \<open>Draw\<close> too when every item has an
  image, the cursor is set and lies between 0 and \<open>len - 1\<close>, and the items are those
  of the built menu. \<open>GetSelectedItem\<close> and \<open>Draw\<close> leave the menu, and so the cursor,
  as it is: only \<open>IncrementSelected\<close> and \<open>DecrementSelected\<close> move it.
\<close>

theorem selection_in_range:
  assumes "NewMenu P input made = Inr out" and "ret_err out = None"
  shows "(\<forall>cs. (CallDraw \<in> set cs \<longrightarrow> all_images (ret_menu out)) \<longrightarrow>
            (\<exists>m' s. run_calls P cs (ret_menu out) = Inr m'
               \<and> SelectedIndex m' = Some s \<and> 0 \<le> s \<and> s \<le> int (length (MenuItems m')) - 1
               \<and> MenuItems m' = MenuItems (ret_menu out)))
    \<and> (\<forall>m m'. exec_call P CallGetSelectedItem m = Inr m' \<longrightarrow> m' = m)
    \<and> (\<forall>m m'. exec_call P CallDraw m = Inr m' \<longrightarrow> m' = m)"
proof (intro conjI allI impI)
  fix cs
  assume d: "CallDraw \<in> set cs \<longrightarrow> all_images (ret_menu out)"
  have pos: "(0::int) < int (length (MenuItems (ret_menu out)))"
    using NewMenu_built(3,5) [OF assms] by simp
  obtain m' s where "run_calls P cs (ret_menu out) = Inr m'"
    "SelectedIndex m' = Some s" "0 \<le> s" "s < int (length (MenuItems m'))"
    "MenuItems m' = MenuItems (ret_menu out)"
    using run_calls_inv [OF NewMenu_built(4) [OF assms] order_refl pos d, of P] by blast
  then show "\<exists>m' s. run_calls P cs (ret_menu out) = Inr m'
            \<and> SelectedIndex m' = Some s \<and> 0 \<le> s \<and> s \<le> int (length (MenuItems m')) - 1
            \<and> MenuItems m' = MenuItems (ret_menu out)"
    by (intro exI [of _ m'] exI [of _ s]) simp
next
  fix m m' :: "'a MenuList"
  assume "exec_call P CallGetSelectedItem m = Inr m'"
  then show "m' = m" by (simp split: sum.splits)
next
  fix m m' :: "'a MenuList"
  assume "exec_call P CallDraw m = Inr m'"
  then show "m' = m" by (simp split: sum.splits)
qed

theorem selection_in_range_witness:
  "NewMenu exact_platform newMenuInput 0 =
       Inr \<lparr>ret_menu = mainMenu, ret_err = None, input_items_after = MenuItems mainMenu,
            images_made = 3\<rparr>
   \<and> all_images mainMenu
   \<and> (\<exists>m' s. run_calls exact_platform
         [CallDecrementSelected, CallIncrementSelected, CallDraw, CallIncrementSelected,
          CallIncrementSelected, CallGetSelectedItem] mainMenu = Inr m'
       \<and> SelectedIndex m' = Some s \<and> 0 \<le> s \<and> s \<le> 2)
   \<and> exec_call exact_platform CallDraw mainMenu = Inr mainMenu"
proof -
  let ?out = "\<lparr>ret_menu = mainMenu, ret_err = None, input_items_after = MenuItems mainMenu,
            images_made = 3\<rparr> :: real NewMenu_outcome"
  have ok: "ret_err ?out = None" by simp
  have m: "ret_menu ?out = mainMenu" by simp
  note t = selection_in_range [OF main_menu_built ok, unfolded m]
  have len: "int (length (MenuItems mainMenu)) - 1 = 2"
    by (simp add: mainMenu_def)
  have g: "CallDraw \<in> set cs \<longrightarrow> all_images mainMenu" for cs
    by (simp add: main_menu_all_images)
  obtain m' s where r: "run_calls exact_platform
         [CallDecrementSelected, CallIncrementSelected, CallDraw, CallIncrementSelected,
          CallIncrementSelected, CallGetSelectedItem] mainMenu = Inr m'"
    "SelectedIndex m' = Some s" "0 \<le> s" "s \<le> int (length (MenuItems m')) - 1"
    "MenuItems m' = MenuItems mainMenu"
    using t [THEN conjunct1, THEN spec, THEN mp, OF g] by blast
  have a: "\<exists>m' s. run_calls exact_platform
         [CallDecrementSelected, CallIncrementSelected, CallDraw, CallIncrementSelected,
          CallIncrementSelected, CallGetSelectedItem] mainMenu = Inr m'
       \<and> SelectedIndex m' = Some s \<and> 0 \<le> s \<and> s \<le> 2"
    using r len by (intro exI [of _ m'] exI [of _ s]) simp
  obtain m1 where d: "exec_call exact_platform CallDraw mainMenu = Inr m1"
    using t [THEN conjunct1, THEN spec, THEN mp, OF g, of "[CallDraw]"]
    by (auto split: sum.splits)
  have b: "exec_call exact_platform CallDraw mainMenu = Inr mainMenu"
    using t [THEN conjunct2, THEN conjunct2, THEN spec, THEN spec, THEN mp, OF d] d by simp
  from main_menu_built main_menu_all_images a b show ?thesis by (intro conjI)
qed

text \<open>
  C5: from a menu that was built, after any sequence of calls of \<open>IncrementSelected\<close>,
  \<open>DecrementSelected\<close> and \<open>GetSelectedItem\<close>, and of \<open>Draw\<close> too when every item has an
  image, \<open>GetSelectedItem\<close> returns the name of the item at the cursor.
\<close>

theorem GetSelectedItem_name:
  assumes "NewMenu P input made = Inr out" and "ret_err out = None"
  shows "\<forall>cs. (CallDraw \<in> set cs \<longrightarrow> all_images (ret_menu out)) \<longrightarrow>
            (\<exists>m' s. run_calls P cs (ret_menu out) = Inr m'
               \<and> SelectedIndex m' = Some s \<and> 0 \<le> s \<and> s < int (length (MenuItems m'))
               \<and> GetSelectedItem m' = Inr (Name (MenuItems m' ! nat s)))"
proof (intro allI impI)
  fix cs
  assume d: "CallDraw \<in> set cs \<longrightarrow> all_images (ret_menu out)"
  have pos: "(0::int) < int (length (MenuItems (ret_menu out)))"
    using NewMenu_built(3,5) [OF assms] by simp
  obtain m' s where r: "run_calls P cs (ret_menu out) = Inr m'"
    "SelectedIndex m' = Some s" "0 \<le> s" "s < int (length (MenuItems m'))"
    using run_calls_inv [OF NewMenu_built(4) [OF assms] order_refl pos d, of P] by blast
  then have "GetSelectedItem m' = Inr (Name (MenuItems m' ! nat s))"
    by (simp add: GetSelectedItem_def)
  with r show "\<exists>m' s. run_calls P cs (ret_menu out) = Inr m'
            \<and> SelectedIndex m' = Some s \<and> 0 \<le> s \<and> s < int (length (MenuItems m'))
            \<and> GetSelectedItem m' = Inr (Name (MenuItems m' ! nat s))"
    by blast
qed

theorem GetSelectedItem_name_witness:
  "NewMenu exact_platform newMenuInput 0 =
       Inr \<lparr>ret_menu = mainMenu, ret_err = None, input_items_after = MenuItems mainMenu,
            images_made = 3\<rparr>
   \<and> (\<exists>m' s. run_calls exact_platform [CallIncrementSelected, CallIncrementSelected]
         mainMenu = Inr m'
       \<and> SelectedIndex m' = Some s \<and> 0 \<le> s \<and> s < int (length (MenuItems m'))
       \<and> GetSelectedItem m' = Inr (Name (MenuItems m' ! nat s)))
   \<and> GetSelectedItem mainMenu = Inr ''playButton''"
proof -
  let ?out = "\<lparr>ret_menu = mainMenu, ret_err = None, input_items_after = MenuItems mainMenu,
            images_made = 3\<rparr> :: real NewMenu_outcome"
  have ok: "ret_err ?out = None" by simp
  have m: "ret_menu ?out = mainMenu" by simp
  note t = GetSelectedItem_name [OF main_menu_built ok, unfolded m]
  have a: "\<exists>m' s. run_calls exact_platform [CallIncrementSelected, CallIncrementSelected]
         mainMenu = Inr m'
       \<and> SelectedIndex m' = Some s \<and> 0 \<le> s \<and> s < int (length (MenuItems m'))
       \<and> GetSelectedItem m' = Inr (Name (MenuItems m' ! nat s))"
    by (rule t [THEN spec, THEN mp]) simp
  have sel: "SelectedIndex mainMenu = Some 0" by (simp add: mainMenu_def)
  have nm: "Name (MenuItems mainMenu ! 0) = ''playButton''" by (simp add: mainMenu_def)
  have "\<exists>m' s. run_calls exact_platform [] mainMenu = Inr m'
       \<and> SelectedIndex m' = Some s \<and> 0 \<le> s \<and> s < int (length (MenuItems m'))
       \<and> GetSelectedItem m' = Inr (Name (MenuItems m' ! nat s))"
    by (rule t [THEN spec, THEN mp]) simp
  then have b: "GetSelectedItem mainMenu = Inr ''playButton''"
    using sel nm by auto
  from main_menu_built a b show ?thesis by (intro conjI)
qed

subsection \<open>Drawing\<close>




end
